theory Spec2Isabelle
  imports Complex_Main
begin

section \<open>JavaScript values and the runtime\<close>

text \<open>
  The values the extraction service's response can contain after \<^verbatim>\<open>JSON.parse\<close>.
  Numbers are modelled as rationals (JSON cannot denote NaN or an infinity); strings are
  lists of code units. A property that is absent reads as \<^verbatim>\<open>undefined\<close>, which is
  \<open>None\<close> of \<open>json option\<close>.
\<close>

datatype json =
    JNull
  | JBool bool
  | JNum rat
  | JStr string
  | JArr "json list"
  | JObj "(string \<times> json) list"

type_synonym jsval = "json option"

datatype js_error = TypeError | SyntaxError | ENOENT

text \<open>
  Built-ins of the language runtime that the repository calls but does not define:
  the conversion of a number to its decimal string, \<^verbatim>\<open>JSON.parse\<close> and
  \<^verbatim>\<open>JSON.stringify\<close>. Every function that needs one takes the runtime as a parameter,
  and every theorem holds for all runtimes.
\<close>

record runtime =
  numberToString :: "rat \<Rightarrow> string"
  jsonParse :: "string \<Rightarrow> js_error + json"
  jsonStringify :: "json \<Rightarrow> string"

text \<open>\<^verbatim>\<open>data.k\<close>: reading a property of \<^verbatim>\<open>null\<close> throws a TypeError; a primitive or
  an array has none of the tender's property names; an object yields its own property.\<close>

fun getProp :: "json \<Rightarrow> string \<Rightarrow> js_error + jsval" where
  "getProp JNull k = Inl TypeError"
| "getProp (JObj kvs) k = Inr (map_of kvs k)"
| "getProp (JBool b) k = Inr None"
| "getProp (JNum n) k = Inr None"
| "getProp (JStr s) k = Inr None"
| "getProp (JArr xs) k = Inr None"

text \<open>Truthiness, as \<^verbatim>\<open>&&\<close>, \<^verbatim>\<open>||\<close> and \<^verbatim>\<open>if\<close> test it.\<close>

fun truthy :: "jsval \<Rightarrow> bool" where
  "truthy None = False"
| "truthy (Some JNull) = False"
| "truthy (Some (JBool b)) = b"
| "truthy (Some (JNum n)) = (n \<noteq> 0)"
| "truthy (Some (JStr s)) = (s \<noteq> [])"
| "truthy (Some (JArr xs)) = True"
| "truthy (Some (JObj kvs)) = True"

text \<open>Strict equality \<^verbatim>\<open>===\<close> of two values read from two different parsed documents:
  primitives compare by value, arrays and objects by identity, so two of them from
  different documents are never equal.\<close>

fun strictEq :: "jsval \<Rightarrow> jsval \<Rightarrow> bool" where
  "strictEq None None = True"
| "strictEq (Some JNull) (Some JNull) = True"
| "strictEq (Some (JBool a)) (Some (JBool b)) = (a = b)"
| "strictEq (Some (JNum a)) (Some (JNum b)) = (a = b)"
| "strictEq (Some (JStr a)) (Some (JStr b)) = (a = b)"
| "strictEq x y = False"

fun join :: "string \<Rightarrow> string list \<Rightarrow> string" where
  "join sep [] = []"
| "join sep [x] = x"
| "join sep (x # y # ys) = x @ sep @ join sep (y # ys)"

text \<open>
  The conversion to a string that \<^verbatim>\<open>String(v)\<close>, a template literal and
  \<^verbatim>\<open>RegExp.prototype.test\<close> apply. An object is converted by calling its \<^verbatim>\<open>toString\<close>:
  a parsed object inherits the one that gives \<^verbatim>\<open>[object Object]\<close>, unless the document
  gave it a key \<^verbatim>\<open>toString\<close> of its own, whose value is never a function; then
  \<^verbatim>\<open>valueOf\<close> is tried, which gives no primitive either, and the conversion throws a
  TypeError. An array joins the conversions of its elements with commas, \<^verbatim>\<open>null\<close>
  elements as the empty string, and throws when an element does.
\<close>

fun toStr :: "runtime \<Rightarrow> json \<Rightarrow> js_error + string"
  and toStrElems :: "runtime \<Rightarrow> json list \<Rightarrow> js_error + string list" where
  "toStr rt JNull = Inr ''null''"
| "toStr rt (JBool b) = Inr (if b then ''true'' else ''false'')"
| "toStr rt (JNum n) = Inr (numberToString rt n)"
| "toStr rt (JStr s) = Inr s"
| "toStr rt (JArr xs) =
     (case toStrElems rt xs of Inl e \<Rightarrow> Inl e | Inr ss \<Rightarrow> Inr (join '','' ss))"
| "toStr rt (JObj kvs) =
     (case map_of kvs ''toString'' of
        None \<Rightarrow> Inr ''[object Object]''
      | Some v \<Rightarrow> Inl TypeError)"
| "toStrElems rt [] = Inr []"
| "toStrElems rt (x # xs) =
     (case (if x = JNull then Inr [] else toStr rt x) of
        Inl e \<Rightarrow> Inl e
      | Inr s \<Rightarrow> (case toStrElems rt xs of Inl e \<Rightarrow> Inl e | Inr ss \<Rightarrow> Inr (s # ss)))"

definition String :: "runtime \<Rightarrow> jsval \<Rightarrow> js_error + string" where
  "String rt v = (case v of None \<Rightarrow> Inr ''undefined'' | Some x \<Rightarrow> toStr rt x)"

text \<open>The values whose conversion to a string does not throw.\<close>

fun stringable :: "json \<Rightarrow> bool" and stringableElems :: "json list \<Rightarrow> bool" where
  "stringable (JObj kvs) = (map_of kvs ''toString'' = None)"
| "stringable (JArr xs) = stringableElems xs"
| "stringable JNull = True"
| "stringable (JBool b) = True"
| "stringable (JNum n) = True"
| "stringable (JStr s) = True"
| "stringableElems [] = True"
| "stringableElems (x # xs) = (stringable x \<and> stringableElems xs)"

definition convertible :: "jsval \<Rightarrow> bool" where
  "convertible v = (case v of None \<Rightarrow> True | Some x \<Rightarrow> stringable x)"

section \<open>utils/validation.ts\<close>

subsection \<open>Regular expressions of fixed shape\<close>

text \<open>The anchored regular expressions of the module are sequences of \<^verbatim>\<open>\d\<close> and literal
  characters: \<^verbatim>\<open>/^(\d{2})\/(\d{2})\/(\d{4})$/\<close>, \<^verbatim>\<open>/^(\d{2})-(\d{2})-(\d{4})$/\<close>,
  \<^verbatim>\<open>/^\d{4}-\d{2}-\d{2}$/\<close> and \<^verbatim>\<open>/^\d{6}$/\<close>.\<close>

datatype pat = Digit | Lit char

definition isDigit :: "char \<Rightarrow> bool" where
  "isDigit c = (c \<in> set ''0123456789'')"

fun matchesPat :: "pat list \<Rightarrow> string \<Rightarrow> bool" where
  "matchesPat [] [] = True"
| "matchesPat (Digit # ps) (c # cs) = (isDigit c \<and> matchesPat ps cs)"
| "matchesPat (Lit x # ps) (c # cs) = (c = x \<and> matchesPat ps cs)"
| "matchesPat [] (c # cs) = False"
| "matchesPat (p # ps) [] = False"

definition re_ddmmyyyy_slash :: "pat list" where
  "re_ddmmyyyy_slash =
     [Digit, Digit, Lit CHR ''/'', Digit, Digit, Lit CHR ''/'', Digit, Digit, Digit, Digit]"

definition re_ddmmyyyy_dash :: "pat list" where
  "re_ddmmyyyy_dash =
     [Digit, Digit, Lit CHR ''-'', Digit, Digit, Lit CHR ''-'', Digit, Digit, Digit, Digit]"

definition re_yyyymmdd :: "pat list" where
  "re_yyyymmdd =
     [Digit, Digit, Digit, Digit, Lit CHR ''-'', Digit, Digit, Lit CHR ''-'', Digit, Digit]"

definition re_six_digits :: "pat list" where
  "re_six_digits = [Digit, Digit, Digit, Digit, Digit, Digit]"

subsection \<open>normalizeDate\<close>

text \<open>
  The capture groups of the two day-first expressions are the characters 0-1 (day),
  3-4 (month) and 6-9 (year). The function is declared on strings, but the extractor
  passes it \<^verbatim>\<open>data.tarikh || ''\<close>, which may be any truthy value: on a non-string
  \<^verbatim>\<open>dateStr.match\<close> is not a function, the TypeError is caught by the function's own
  \<^verbatim>\<open>try\<close>/\<^verbatim>\<open>catch\<close>, and the result is \<^verbatim>\<open>null\<close>.
\<close>

fun normalizeDate :: "json \<Rightarrow> string option" where
  "normalizeDate (JStr dateStr) =
     (if matchesPat re_ddmmyyyy_slash dateStr then
        (let day = take 2 dateStr; month = take 2 (drop 3 dateStr); year = drop 6 dateStr
         in Some (year @ ''-'' @ month @ ''-'' @ day))
      else if matchesPat re_ddmmyyyy_dash dateStr then
        (let day = take 2 dateStr; month = take 2 (drop 3 dateStr); year = drop 6 dateStr
         in Some (year @ ''-'' @ month @ ''-'' @ day))
      else if matchesPat re_yyyymmdd dateStr then Some dateStr
      else None)"
| "normalizeDate JNull = None"
| "normalizeDate (JBool b) = None"
| "normalizeDate (JNum n) = None"
| "normalizeDate (JArr xs) = None"
| "normalizeDate (JObj kvs) = None"

declare normalizeDate.simps(1) [simp del]

text \<open>The canonical form in the specification's words: ten characters, a hyphen at
  positions 4 and 7, a decimal digit everywhere else.\<close>

definition canonicalDate :: "string \<Rightarrow> bool" where
  "canonicalDate s =
     (length s = 10 \<and> s ! 4 = CHR ''-'' \<and> s ! 7 = CHR ''-'' \<and>
      list_all (\<lambda>i. isDigit (s ! i)) [0, 1, 2, 3, 5, 6, 8, 9])"

subsection \<open>cleanText\<close>

text \<open>White space as \<^verbatim>\<open>\s\<close> and \<^verbatim>\<open>trim\<close> see it among the code units below 256:
  tab, line feed, vertical tab, form feed, carriage return, space, no-break space.\<close>

definition isSpace :: "char \<Rightarrow> bool" where
  "isSpace c = (of_char c \<in> set [9, 10, 11, 12, 13, 32, 160 :: nat])"

definition trim :: "string \<Rightarrow> string" where
  "trim s = rev (dropWhile isSpace (rev (dropWhile isSpace s)))"

text \<open>\<^verbatim>\<open>replace(/\s+/g, ' ')\<close>: the flag says that the previous character was white space
  and its run has already been replaced.\<close>

fun collapseSpaces :: "bool \<Rightarrow> string \<Rightarrow> string" where
  "collapseSpaces inRun [] = []"
| "collapseSpaces inRun (c # cs) =
     (if isSpace c then (if inRun then collapseSpaces True cs else CHR '' '' # collapseSpaces True cs)
      else c # collapseSpaces False cs)"

text \<open>\<^verbatim>\<open>replace(/\r\n/g, ' ')\<close> and \<^verbatim>\<open>replace(/\n/g, ' ')\<close>.\<close>

fun replaceCRLF :: "string \<Rightarrow> string" where
  "replaceCRLF (c # d # cs) =
     (if c = CHR 0x0D \<and> d = CHR 0x0A then CHR '' '' # replaceCRLF cs else c # replaceCRLF (d # cs))"
| "replaceCRLF cs = cs"

definition replaceLF :: "string \<Rightarrow> string" where
  "replaceLF s = map (\<lambda>c. if c = CHR 0x0A then CHR '' '' else c) s"

definition cleanText :: "string \<Rightarrow> string" where
  "cleanText text = replaceLF (replaceCRLF (collapseSpaces False (trim text)))"

subsection \<open>isValidKodBidang, isValidStatus\<close>

text \<open>\<^verbatim>\<open>/^\d{6}$/.test(kod)\<close> converts its argument to a string first, which may throw;
  the extractor passes \<^verbatim>\<open>data.kod_bidang\<close>, whatever it is.\<close>

definition isValidKodBidang :: "runtime \<Rightarrow> jsval \<Rightarrow> js_error + bool" where
  "isValidKodBidang rt kod =
     (case String rt kod of Inl e \<Rightarrow> Inl e | Inr s \<Rightarrow> Inr (matchesPat re_six_digits s))"

text \<open>\<^verbatim>\<open>['Aktif', 'Tidak Aktif'].includes(status)\<close> compares without conversion.\<close>

definition isValidStatus :: "jsval \<Rightarrow> bool" where
  "isValidStatus status = (status \<in> set [Some (JStr ''Aktif''), Some (JStr ''Tidak Aktif'')])"

subsection \<open>levenshteinDistance, calculateFieldConfidence\<close>

text \<open>
  The matrix has one row per prefix of \<open>b\<close> and one column per prefix of \<open>a\<close>. Row 0 is
  \<open>0, 1, ..., length a\<close>; row \<open>i\<close> starts with \<open>i\<close> and is filled from left to right.
  \<open>fillRow bc as prev left\<close> computes the cells of the current row that are still
  missing: \<open>bc\<close> is \<^verbatim>\<open>b.charAt(i - 1)\<close>, \<open>as\<close> the characters of \<open>a\<close> still to come,
  \<open>prev\<close> the previous row from column \<open>j - 1\<close> on, \<open>left\<close> the cell to the left.
\<close>

fun fillRow :: "char \<Rightarrow> string \<Rightarrow> nat list \<Rightarrow> nat \<Rightarrow> nat list" where
  "fillRow bc (ac # as) (diag # up # prev) left =
     (let cell = (if bc = ac then diag else min (min (diag + 1) (left + 1)) (up + 1))
      in cell # fillRow bc as (up # prev) cell)"
| "fillRow bc as prev left = []"

definition levenshteinDistance :: "string \<Rightarrow> string \<Rightarrow> nat" where
  "levenshteinDistance a b =
     last (foldl (\<lambda>row (i, bc). i # fillRow bc a row i)
                 [0 ..< Suc (length a)]
                 (zip [1 ..< Suc (length b)] b))"

text \<open>\<^verbatim>\<open>toLowerCase\<close> on the code units below 256: A-Z and the capital letters of
  Latin-1 (0xC0-0xDE without the multiplication sign) move up by 32.\<close>

definition toLowerChar :: "char \<Rightarrow> char" where
  "toLowerChar c =
     (let n = (of_char c :: nat)
      in if (65 \<le> n \<and> n \<le> 90) \<or> (192 \<le> n \<and> n \<le> 222 \<and> n \<noteq> 215) then char_of (n + 32) else c)"

definition toLowerCase :: "string \<Rightarrow> string" where
  "toLowerCase s = map toLowerChar s"

definition calculateFieldConfidence :: "runtime \<Rightarrow> jsval \<Rightarrow> jsval \<Rightarrow> js_error + rat" where
  "calculateFieldConfidence rt extracted validated =
     (if extracted = Some JNull \<or> validated = Some JNull then Inr 0
      else if strictEq extracted validated then Inr 1
      else
        (case String rt extracted of
           Inl e \<Rightarrow> Inl e
         | Inr s1 \<Rightarrow>
             (case String rt validated of
                Inl e \<Rightarrow> Inl e
              | Inr s2 \<Rightarrow>
                  (let str1 = toLowerCase s1;
                       str2 = toLowerCase s2
                   in if str1 = str2 then Inr 1
                      else
                        (let similarity =
                               1 - of_nat (levenshteinDistance str1 str2)
                                   / of_nat (max (length str1) (length str2))
                         in Inr (max 0 similarity))))))"

section \<open>types/index.ts\<close>

text \<open>
  A tender object, complete (\<^verbatim>\<open>Tender\<close>) or partial (\<^verbatim>\<open>Partial<Tender>\<close>): each property
  is absent (\<open>None\<close>) or holds a value. The declared property types are not enforced
  at run time (the extractor stores \<^verbatim>\<open>data.kod_bidang\<close> and \<^verbatim>\<open>data.status\<close> as they
  came, the manual editor casts a partial object to \<^verbatim>\<open>Tender\<close>), so every property
  holds a \<open>json\<close> value.
\<close>

record Tender =
  bil :: jsval
  tarikh :: jsval
  daftar :: jsval
  bidang :: jsval
  kod_bidang :: jsval
  keterangan :: jsval
  status :: jsval

definition emptyTender :: Tender where
  "emptyTender = \<lparr>bil = None, tarikh = None, daftar = None, bidang = None,
                   kod_bidang = None, keterangan = None, status = None\<rparr>"

record Confidence =
  overall :: rat
  per_field :: "(string \<times> rat) list"

record ExtractionResult =
  tender :: Tender
  confidence :: Confidence
  warnings :: "string list"
  errors :: "string list"
  raw_gemini_response :: "string option"

section \<open>learning/gemini-extractor.ts\<close>

text \<open>An object with string keys in insertion order (\<^verbatim>\<open>Record<string, number>\<close>, the
  files of a directory): assigning to a key replaces its value or appends the key.\<close>

fun setProp :: "string \<Rightarrow> 'v \<Rightarrow> (string \<times> 'v) list \<Rightarrow> (string \<times> 'v) list" where
  "setProp k v [] = [(k, v)]"
| "setProp k v ((k', v') # m) = (if k = k' then (k, v) # m else (k', v') # setProp k v m)"

text \<open>\<^verbatim>\<open>x.toFixed(d)\<close> read back as a number: the nearest multiple of \<open>10\<^sup>-\<^sup>d\<close>, the
  larger one of two equally near, on the absolute value. The arithmetic is exact here,
  where the program computes in binary floating point: the two differ where the exact
  quotient lies half-way between two multiples and the double lies beside it, as for
  23 correct of 160, which prints 14.37 where the exact value 14.375 rounds to 14.38.
  The values that the theorems below compute (0, 50, 100, 0.836, 0.964) and the mean of
  every combination of the per-field confidences round alike in both.\<close>

definition toFixed :: "nat \<Rightarrow> rat \<Rightarrow> rat" where
  "toFixed d x =
     (if x < 0 then - (of_int \<lfloor>(- x) * 10 ^ d + 1 / 2\<rfloor> / 10 ^ d)
      else of_int \<lfloor>x * 10 ^ d + 1 / 2\<rfloor> / 10 ^ d)"

text \<open>The local variables of \<^verbatim>\<open>validateAndScoreTender\<close> that its seven blocks update.\<close>

record scoring =
  extraction :: Tender
  perFieldConfidence :: "(string \<times> rat) list"
  errs :: "string list"

definition score :: "string \<Rightarrow> rat \<Rightarrow> scoring \<Rightarrow> scoring" where
  "score k c st = st\<lparr>perFieldConfidence := setProp k c (perFieldConfidence st)\<rparr>"

definition pushError :: "string \<Rightarrow> scoring \<Rightarrow> scoring" where
  "pushError msg st = st\<lparr>errs := errs st @ [msg]\<rparr>"

text \<open>\<^verbatim>\<open>typeof data.bil === 'number' && data.bil > 0\<close>\<close>

fun isPositiveNumber :: "jsval \<Rightarrow> bool" where
  "isPositiveNumber (Some (JNum n)) = (0 < n)"
| "isPositiveNumber v = False"

text \<open>\<^verbatim>\<open>v && typeof v === 'string'\<close>, and the same with \<^verbatim>\<open>&& v.length > 5\<close>.\<close>

fun nonEmptyString :: "jsval \<Rightarrow> string option" where
  "nonEmptyString (Some (JStr s)) = (if s \<noteq> [] then Some s else None)"
| "nonEmptyString v = None"

definition validateBil :: "jsval \<Rightarrow> scoring \<Rightarrow> scoring" where
  "validateBil data_bil st =
     (if isPositiveNumber data_bil
      then score ''bil'' 1 (st\<lparr>extraction := (extraction st)\<lparr>bil := data_bil\<rparr>\<rparr>)
      else pushError ''Invalid BIL'' (score ''bil'' 0 st))"

text \<open>The blocks for the date, the code and the status put the raw value into a
  template literal when it is invalid, and the block for the code tests it with a
  regular expression: these conversions may throw, and the function has no
  \<^verbatim>\<open>try\<close> around them.\<close>

definition validateTarikh :: "runtime \<Rightarrow> jsval \<Rightarrow> scoring \<Rightarrow> js_error + scoring" where
  "validateTarikh rt data_tarikh st =
     (let normalizedDate =
            normalizeDate (case data_tarikh of
                             Some v \<Rightarrow> if truthy data_tarikh then v else JStr []
                           | None \<Rightarrow> JStr [])
      in if truthy (map_option JStr normalizedDate)
         then Inr (score ''tarikh'' 1
                (st\<lparr>extraction := (extraction st)\<lparr>tarikh := map_option JStr normalizedDate\<rparr>\<rparr>))
         else (case String rt data_tarikh of
                 Inl e \<Rightarrow> Inl e
               | Inr shown \<Rightarrow>
                   Inr (pushError (''Invalid date format: '' @ shown) (score ''tarikh'' 0 st))))"

definition validateDaftar :: "jsval \<Rightarrow> scoring \<Rightarrow> scoring" where
  "validateDaftar data_daftar st =
     (case nonEmptyString data_daftar of
        Some s \<Rightarrow>
          score ''daftar'' (9 / 10)
            (st\<lparr>extraction := (extraction st)\<lparr>daftar := Some (JStr (cleanText s))\<rparr>\<rparr>)
      | None \<Rightarrow> pushError ''Missing DAFTAR'' (score ''daftar'' 0 st))"

definition validateBidang :: "jsval \<Rightarrow> scoring \<Rightarrow> scoring" where
  "validateBidang data_bidang st =
     (case nonEmptyString data_bidang of
        Some s \<Rightarrow>
          if 5 < length s
          then score ''bidang'' (95 / 100)
                 (st\<lparr>extraction := (extraction st)\<lparr>bidang := Some (JStr (cleanText s))\<rparr>\<rparr>)
          else pushError ''Invalid BIDANG'' (score ''bidang'' 0 st)
      | None \<Rightarrow> pushError ''Invalid BIDANG'' (score ''bidang'' 0 st))"

definition validateKodBidang :: "runtime \<Rightarrow> jsval \<Rightarrow> scoring \<Rightarrow> js_error + scoring" where
  "validateKodBidang rt data_kod_bidang st =
     (case isValidKodBidang rt data_kod_bidang of
        Inl e \<Rightarrow> Inl e
      | Inr valid \<Rightarrow>
          if valid
          then Inr (score ''kod_bidang'' 1
                 (st\<lparr>extraction := (extraction st)\<lparr>kod_bidang := data_kod_bidang\<rparr>\<rparr>))
          else (case String rt data_kod_bidang of
                  Inl e \<Rightarrow> Inl e
                | Inr shown \<Rightarrow>
                    Inr (pushError (''Invalid KOD BIDANG format: '' @ shown)
                          (score ''kod_bidang'' 0 st))))"

definition validateKeterangan :: "jsval \<Rightarrow> scoring \<Rightarrow> scoring" where
  "validateKeterangan data_keterangan st =
     (case nonEmptyString data_keterangan of
        Some s \<Rightarrow>
          if 5 < length s
          then score ''keterangan'' (9 / 10)
                 (st\<lparr>extraction := (extraction st)\<lparr>keterangan := Some (JStr (cleanText s))\<rparr>\<rparr>)
          else pushError ''Invalid KETERANGAN'' (score ''keterangan'' 0 st)
      | None \<Rightarrow> pushError ''Invalid KETERANGAN'' (score ''keterangan'' 0 st))"

definition validateStatus :: "runtime \<Rightarrow> jsval \<Rightarrow> scoring \<Rightarrow> js_error + scoring" where
  "validateStatus rt data_status st =
     (if isValidStatus data_status
      then Inr (score ''status'' 1 (st\<lparr>extraction := (extraction st)\<lparr>status := data_status\<rparr>\<rparr>))
      else (case String rt data_status of
              Inl e \<Rightarrow> Inl e
            | Inr shown \<Rightarrow> Inr (pushError (''Invalid STATUS: '' @ shown) (score ''status'' 0 st))))"

text \<open>\<^verbatim>\<open>Object.values(perFieldConfidence)\<close>, then the mean, with the fallback 0 for no
  value at all. \<^verbatim>\<open>reduce\<close> without a start value folds from the first element.\<close>

definition overallConfidence :: "(string \<times> rat) list \<Rightarrow> rat" where
  "overallConfidence pfc =
     (let confidenceValues = map snd pfc
      in if 0 < length confidenceValues
         then foldl (+) (hd confidenceValues) (tl confidenceValues) / of_nat (length confidenceValues)
         else 0)"

text \<open>
  The first property read, \<^verbatim>\<open>data.bil\<close>, throws on \<^verbatim>\<open>null\<close>; after it \<open>data\<close> is not
  \<^verbatim>\<open>null\<close> and the other reads cannot throw (\<open>readProp\<close>). The seven blocks run in
  the order of the source; an exception in the block of the date, the code or the
  status ends the function. \<^verbatim>\<open>JSON.stringify\<close> of a parsed value does not throw.
\<close>

definition readProp :: "json \<Rightarrow> string \<Rightarrow> jsval" where
  "readProp data k = (case getProp data k of Inl e \<Rightarrow> None | Inr v \<Rightarrow> v)"

definition validateAndScoreTender :: "runtime \<Rightarrow> json \<Rightarrow> js_error + ExtractionResult" where
  "validateAndScoreTender rt data =
     (case getProp data ''bil'' of
        Inl e \<Rightarrow> Inl e
      | Inr data_bil \<Rightarrow>
          (case validateTarikh rt (readProp data ''tarikh'')
                  (validateBil data_bil
                    \<lparr>extraction = emptyTender, perFieldConfidence = [], errs = []\<rparr>) of
             Inl e \<Rightarrow> Inl e
           | Inr st \<Rightarrow>
               (case validateKodBidang rt (readProp data ''kod_bidang'')
                       (validateBidang (readProp data ''bidang'')
                         (validateDaftar (readProp data ''daftar'') st)) of
                  Inl e \<Rightarrow> Inl e
                | Inr st \<Rightarrow>
                    (case validateStatus rt (readProp data ''status'')
                            (validateKeterangan (readProp data ''keterangan'') st) of
                       Inl e \<Rightarrow> Inl e
                     | Inr st \<Rightarrow>
                         Inr \<lparr>tender = extraction st,
                              confidence =
                                \<lparr>overall = toFixed 3 (overallConfidence (perFieldConfidence st)),
                                 per_field = perFieldConfidence st\<rparr>,
                              warnings =
                                (if 0 < length (errs st)
                                 then [''Extraction had ''
                                         @ numberToString rt (of_nat (length (errs st)))
                                         @ '' validation errors'']
                                 else []),
                              errors = errs st,
                              raw_gemini_response = Some (jsonStringify rt data)\<rparr>))))"

text \<open>\<^verbatim>\<open>responseText.match(/\[[\s\S]*\]/)\<close>: from the first opening bracket to the last
  closing bracket after it, if there is one.\<close>

definition matchJsonArray :: "string \<Rightarrow> string option" where
  "matchJsonArray responseText =
     (let fromOpen = dropWhile (\<lambda>c. c \<noteq> CHR ''['') responseText;
          m = rev (dropWhile (\<lambda>c. c \<noteq> CHR '']'') (rev fromOpen))
      in if m = [] then None else Some m)"

text \<open>\<^verbatim>\<open>parsed.map(f)\<close> where \<open>f\<close> may throw: the first exception ends the loop.\<close>

fun mapThrowing :: "('a \<Rightarrow> js_error + 'b) \<Rightarrow> 'a list \<Rightarrow> js_error + 'b list" where
  "mapThrowing f [] = Inr []"
| "mapThrowing f (x # xs) =
     (case f x of
        Inl e \<Rightarrow> Inl e
      | Inr y \<Rightarrow> (case mapThrowing f xs of Inl e \<Rightarrow> Inl e | Inr ys \<Rightarrow> Inr (y # ys)))"

text \<open>\<^verbatim>\<open>Array.isArray\<close>\<close>

fun isArray :: "json \<Rightarrow> bool" where
  "isArray (JArr xs) = True"
| "isArray v = False"

text \<open>The body of the \<^verbatim>\<open>try\<close> block of \<^verbatim>\<open>parseGeminiResponse\<close>, then the function with
  its \<^verbatim>\<open>catch\<close>, which returns the empty array.\<close>

definition parseGeminiResponse_try :: "runtime \<Rightarrow> string \<Rightarrow> js_error + ExtractionResult list" where
  "parseGeminiResponse_try rt responseText =
     (case matchJsonArray responseText of
        None \<Rightarrow> Inr []
      | Some jsonMatch \<Rightarrow>
          (case jsonParse rt jsonMatch of
             Inl e \<Rightarrow> Inl e
           | Inr parsed \<Rightarrow>
               (if \<not> isArray parsed then Inr []
                else (case parsed of
                        JArr items \<Rightarrow> mapThrowing (validateAndScoreTender rt) items
                      | _ \<Rightarrow> Inr []))))"

definition parseGeminiResponse :: "runtime \<Rightarrow> string \<Rightarrow> js_error + ExtractionResult list" where
  "parseGeminiResponse rt responseText =
     (case parseGeminiResponse_try rt responseText of
        Inl error \<Rightarrow> Inr []
      | Inr results \<Rightarrow> Inr results)"

section \<open>learning/training-manager.ts\<close>

record TrainingExample =
  example_id :: string
  pdf_url :: string
  pdf_path :: string
  gemini_extraction :: ExtractionResult
  manual_validation :: "Tender option"
  confidence_score :: rat
  is_validated :: bool
  created_at :: nat
  improved_at :: "nat option"
  learning_iteration :: nat

text \<open>
  The directory \<^verbatim>\<open>examples/\<close>: one file \<^verbatim>\<open>${id}.json\<close> per example, keyed here by the id,
  in the order the files were created; \<^verbatim>\<open>readdir\<close> may list them in another order,
  which changes at most the order of the examples of one iteration in a listing. Writing a file replaces it or adds it. The
  generator \<^verbatim>\<open>uuidv4()\<close> and the clock \<^verbatim>\<open>new Date()\<close> are inputs: \<open>uuidv4 i\<close> and
  \<open>clock i\<close> are what they return in round \<open>i\<close> of the loop.
\<close>

type_synonym examplesDir = "(string \<times> TrainingExample) list"

fun saveLoop ::
  "(nat \<Rightarrow> string) \<Rightarrow> (nat \<Rightarrow> nat) \<Rightarrow> string \<Rightarrow> string \<Rightarrow> nat \<Rightarrow> nat \<Rightarrow>
   ExtractionResult list \<Rightarrow> examplesDir \<Rightarrow> examplesDir \<times> TrainingExample list" where
  "saveLoop uuidv4 clock pdfPath pdfUrl iteration i [] dir = (dir, [])"
| "saveLoop uuidv4 clock pdfPath pdfUrl iteration i (x # xs) dir =
     (let exampleId = uuidv4 i;
          example = \<lparr>example_id = exampleId, pdf_url = pdfUrl, pdf_path = pdfPath,
                     gemini_extraction = x, manual_validation = None,
                     confidence_score = overall (confidence x), is_validated = False,
                     created_at = clock i, improved_at = None,
                     learning_iteration = iteration\<rparr>;
          (dir', examples) =
            saveLoop uuidv4 clock pdfPath pdfUrl iteration (Suc i) xs (setProp exampleId example dir)
      in (dir', example # examples))"

definition saveTrainingExample ::
  "(nat \<Rightarrow> string) \<Rightarrow> (nat \<Rightarrow> nat) \<Rightarrow> string \<Rightarrow> string \<Rightarrow> ExtractionResult list \<Rightarrow> nat \<Rightarrow>
   examplesDir \<Rightarrow> examplesDir \<times> TrainingExample list" where
  "saveTrainingExample uuidv4 clock pdfPath pdfUrl extractions iteration dir =
     saveLoop uuidv4 clock pdfPath pdfUrl iteration 0 extractions dir"

text \<open>Reading a file that does not exist rejects with ENOENT, and nothing is written.\<close>

definition validateExample ::
  "nat \<Rightarrow> string \<Rightarrow> Tender \<Rightarrow> examplesDir \<Rightarrow> js_error + (examplesDir \<times> TrainingExample)" where
  "validateExample now exampleId validatedTender dir =
     (case map_of dir exampleId of
        None \<Rightarrow> Inl ENOENT
      | Some example \<Rightarrow>
          (let example = example\<lparr>manual_validation := Some validatedTender,
                                 is_validated := True,
                                 improved_at := Some now\<rparr>
           in Inr (setProp exampleId example dir, example)))"

text \<open>\<^verbatim>\<open>!iteration\<close> holds for a missing argument and for 0. The sort is stable. The
  \<^verbatim>\<open>catch\<close> of the function (an unreadable directory or file gives the empty list) has
  no counterpart: the directory of the model is always readable.\<close>

definition getValidatedExamples :: "examplesDir \<Rightarrow> nat option \<Rightarrow> TrainingExample list" where
  "getValidatedExamples dir iteration =
     sort_key learning_iteration
       (filter (\<lambda>example. is_validated example \<and>
                           (iteration = None \<or> iteration = Some 0 \<or>
                            Some (learning_iteration example) = iteration))
               (map snd dir))"

text \<open>The test of \<^verbatim>\<open>calculateAccuracy\<close>, under its comment "Check if all critical fields
  match".\<close>

definition fieldsMatch :: "Tender \<Rightarrow> Tender \<Rightarrow> bool" where
  "fieldsMatch extracted validated0 =
     (strictEq (bil extracted) (bil validated0) \<and>
      strictEq (tarikh extracted) (tarikh validated0) \<and>
      strictEq (kod_bidang extracted) (kod_bidang validated0) \<and>
      strictEq (status extracted) (status validated0))"

fun correctCount :: "TrainingExample list \<Rightarrow> nat" where
  "correctCount [] = 0"
| "correctCount (example # rest) =
     (case manual_validation example of
        None \<Rightarrow> correctCount rest
      | Some validated0 \<Rightarrow>
          if fieldsMatch (tender (gemini_extraction example)) validated0
          then Suc (correctCount rest)
          else correctCount rest)"

text \<open>\<^verbatim>\<open>calculateAccuracy\<close> after it has read the validated examples, and the whole
  function. The quotient and the product are exact (see \<open>toFixed\<close>).\<close>

definition accuracyOf :: "TrainingExample list \<Rightarrow> rat" where
  "accuracyOf validated =
     (if length validated = 0 then 0
      else toFixed 2 (of_nat (correctCount validated) / of_nat (length validated) * 100))"

definition calculateAccuracy :: "examplesDir \<Rightarrow> rat" where
  "calculateAccuracy dir = accuracyOf (getValidatedExamples dir None)"

text \<open>The operations on the store, and a run of them from a directory.\<close>

datatype store_op =
    SaveTrainingExample "nat \<Rightarrow> string" "nat \<Rightarrow> nat" string string "ExtractionResult list" nat
  | ValidateExample nat string Tender

fun applyOp :: "examplesDir \<Rightarrow> store_op \<Rightarrow> examplesDir" where
  "applyOp dir (SaveTrainingExample uuidv4 clock pdfPath pdfUrl extractions iteration) =
     fst (saveTrainingExample uuidv4 clock pdfPath pdfUrl extractions iteration dir)"
| "applyOp dir (ValidateExample now exampleId validatedTender) =
     (case validateExample now exampleId validatedTender dir of
        Inl e \<Rightarrow> dir
      | Inr (dir', example) \<Rightarrow> dir')"

definition runOps :: "store_op list \<Rightarrow> examplesDir \<Rightarrow> examplesDir" where
  "runOps ops dir = foldl applyOp dir ops"

text \<open>The invariant of the store in the specification's words: an example is marked
  validated exactly when a ground truth is attached.\<close>

definition storeInvariant :: "examplesDir \<Rightarrow> bool" where
  "storeInvariant dir =
     list_all (\<lambda>(k, example). is_validated example = (manual_validation example \<noteq> None)) dir"

section \<open>train.ts\<close>

text \<open>The test of \<^verbatim>\<open>analyzeFailures\<close>, under its comment "Check critical fields".\<close>

definition criticalFieldsMismatch :: "Tender \<Rightarrow> Tender \<Rightarrow> bool" where
  "criticalFieldsMismatch extracted validated0 =
     (\<not> strictEq (bil extracted) (bil validated0) \<or>
      \<not> strictEq (kod_bidang extracted) (kod_bidang validated0) \<or>
      \<not> strictEq (status extracted) (status validated0))"

text \<open>A failure is the example with one more property, the object
  \<^verbatim>\<open>field_mismatches\<close>, whose five keys \<^verbatim>\<open>analyzeFailures\<close> writes.\<close>

record Failure = TrainingExample +
  field_mismatches :: "(string \<times> bool) list"

definition fieldMismatches :: "Tender \<Rightarrow> Tender \<Rightarrow> (string \<times> bool) list" where
  "fieldMismatches extracted validated0 =
     [(''bil'', \<not> strictEq (bil extracted) (bil validated0)),
      (''kod_bidang'', \<not> strictEq (kod_bidang extracted) (kod_bidang validated0)),
      (''status'', \<not> strictEq (status extracted) (status validated0)),
      (''tarikh'', \<not> strictEq (tarikh extracted) (tarikh validated0)),
      (''bidang'', \<not> strictEq (bidang extracted) (bidang validated0))]"

fun analyzeFailures :: "TrainingExample list \<Rightarrow> Failure list" where
  "analyzeFailures [] = []"
| "analyzeFailures (example # rest) =
     (case manual_validation example of
        None \<Rightarrow> analyzeFailures rest
      | Some validated0 \<Rightarrow>
          (let extracted = tender (gemini_extraction example)
           in if criticalFieldsMismatch extracted validated0
              then TrainingExample.extend example
                     (Failure.fields (fieldMismatches extracted validated0))
                   # analyzeFailures rest
              else analyzeFailures rest))"

text \<open>\<^verbatim>\<open>if (mismatches.k)\<close>: a key that the object does not have reads as
  \<^verbatim>\<open>undefined\<close>, which is false.\<close>

definition flag :: "(string \<times> bool) list \<Rightarrow> string \<Rightarrow> bool" where
  "flag mismatches k = (map_of mismatches k = Some True)"

text \<open>\<^verbatim>\<open>patterns.add(t)\<close> on a set that keeps insertion order.\<close>

definition addPattern :: "string \<Rightarrow> string list \<Rightarrow> string list" where
  "addPattern t patterns = (if t \<in> set patterns then patterns else patterns @ [t])"

fun patternsLoop :: "Failure list \<Rightarrow> string list \<Rightarrow> string list" where
  "patternsLoop [] patterns = patterns"
| "patternsLoop (failure # rest) patterns =
     (let mismatches = field_mismatches failure;
          patterns = (if flag mismatches ''kod_bidang''
                      then addPattern ''code_format'' patterns else patterns);
          patterns = (if flag mismatches ''status''
                      then addPattern ''status_format'' patterns else patterns);
          patterns = (if flag mismatches ''bidang'' \<or> flag mismatches ''keterangan''
                      then addPattern ''text_content'' patterns else patterns);
          patterns = (if flag mismatches ''tarikh''
                      then addPattern ''date_format'' patterns else patterns)
      in patternsLoop rest patterns)"

definition identifyFailurePatterns :: "Failure list \<Rightarrow> string list" where
  "identifyFailurePatterns failures = patternsLoop failures []"

text \<open>The pieces of the template strings of \<^verbatim>\<open>generateImprovedPrompt\<close>.\<close>

definition promptHeader :: string where
  \<open>promptHeader =
     ''Extract tender information from this Malaysian government website screenshot/PDF.\<newline>'' @
     ''\<newline>'' @
     ''REQUIRED FIELDS (extract exactly as shown):\<newline>'' @
     ''1. BIL - Item number (integer, e.g., 1, 2, 3)\<newline>'' @
     ''2. TARIKH - Date in DD/MM/YYYY format (e.g., 03/07/2024)\<newline>'' @
     ''3. DAFTAR - Registration/Reference code\<newline>'' @
     ''4. BIDANG - Category/Field description (FULL TEXT - preserve all details)\<newline>'' @
     ''5. KOD BIDANG - Code (exactly 6 digits, e.g., 010302)\<newline>'' @
     ''6. KETERANGAN - Description (FULL TEXT - include all details)\<newline>'' @
     ''7. STATUS - Status (must be exactly "Aktif" or "Tidak Aktif")\<newline>'' @
     ''\<newline>'' @
     ''CRITICAL RULES:\<newline>''\<close>

definition clause_code_format :: string where
  \<open>clause_code_format =
     ''\<newline>'' @
     ''- KOD BIDANG MUST be exactly 6 numeric digits. Verify twice.\<newline>'' @
     ''- Do not include spaces, dashes, or special characters in codes.''\<close>

definition clause_status_format :: string where
  \<open>clause_status_format =
     ''\<newline>'' @
     ''- STATUS field is critical: Must be EXACTLY "Aktif" or "Tidak Aktif" (case-sensitive).\<newline>'' @
     ''- Do not include extra text, numbers, or symbols.''\<close>

definition clause_text_content :: string where
  \<open>clause_text_content =
     ''\<newline>'' @
     ''- BIDANG and KETERANGAN contain full Malay descriptions.\<newline>'' @
     ''- Preserve all text exactly as shown, including all special characters.\<newline>'' @
     ''- Do not shorten or modify descriptions.''\<close>

definition clause_date_format :: string where
  \<open>clause_date_format =
     ''\<newline>'' @
     ''- TARIKH (date) must be in DD/MM/YYYY format (e.g., 03/07/2024).\<newline>'' @
     ''- Convert from any other format if needed.''\<close>

definition promptFooter :: string where
  \<open>promptFooter =
     ''\<newline>'' @
     ''\<newline>'' @
     ''OUTPUT FORMAT:\<newline>'' @
     ''Return ONLY valid JSON array. NO other text.\<newline>'' @
     ''[\<newline>'' @
     ''  {\<newline>'' @
     ''    "bil": 1,\<newline>'' @
     ''    "tarikh": "03/07/2024",\<newline>'' @
     ''    "daftar": "code",\<newline>'' @
     ''    "bidang": "Full description text",\<newline>'' @
     ''    "kod_bidang": "010302",\<newline>'' @
     ''    "keterangan": "Full description text",\<newline>'' @
     ''    "status": "Aktif"\<newline>'' @
     ''  }\<newline>'' @
     '']\<newline>'' @
     ''\<newline>'' @
     ''If NO data found or extraction fails: return []\<newline>''\<close>

definition generateImprovedPrompt :: "Failure list \<Rightarrow> string" where
  "generateImprovedPrompt failures =
     (let failurePatterns = identifyFailurePatterns failures;
          improvedPrompt = promptHeader;
          improvedPrompt = (if ''code_format'' \<in> set failurePatterns
                            then improvedPrompt @ clause_code_format else improvedPrompt);
          improvedPrompt = (if ''status_format'' \<in> set failurePatterns
                            then improvedPrompt @ clause_status_format else improvedPrompt);
          improvedPrompt = (if ''text_content'' \<in> set failurePatterns
                            then improvedPrompt @ clause_text_content else improvedPrompt);
          improvedPrompt = (if ''date_format'' \<in> set failurePatterns
                            then improvedPrompt @ clause_date_format else improvedPrompt)
      in improvedPrompt @ promptFooter)"

text \<open>The extractor's state and \<^verbatim>\<open>updatePrompt\<close>, which the trainer calls with the
  new prompt.\<close>

record GeminiExtractor =
  extractionPrompt :: string
  iteration :: nat

definition updatePrompt :: "string \<Rightarrow> GeminiExtractor \<Rightarrow> GeminiExtractor" where
  "updatePrompt newPrompt ex = ex\<lparr>extractionPrompt := newPrompt, iteration := iteration ex + 1\<rparr>"

text \<open>The fixed vocabulary of pattern tags and the clause of each, to state what the
  prompt consists of.\<close>

definition vocabulary :: "string list" where
  "vocabulary = [''code_format'', ''status_format'', ''text_content'', ''date_format'']"

definition clauseOf :: "string \<Rightarrow> string" where
  "clauseOf t =
     (if t = ''code_format'' then clause_code_format
      else if t = ''status_format'' then clause_status_format
      else if t = ''text_content'' then clause_text_content
      else if t = ''date_format'' then clause_date_format
      else [])"

section \<open>Concrete inputs and auxiliary predicates\<close>

text \<open>
  A runtime for the concrete checks. It prints integers in decimal notation (the only
  numbers the checks print) and parses the two documents the checks use.
\<close>

function showNat :: "nat \<Rightarrow> string" where
  "showNat n = (if n < 10 then [char_of (48 + n)] else showNat (n div 10) @ [char_of (48 + n mod 10)])"
  by pat_completeness auto
termination
  by (relation "measure (\<lambda>n. n)") auto

declare showNat.simps [simp del]

definition testRuntime :: runtime where
  "testRuntime =
     \<lparr>numberToString = (\<lambda>q. (if q < 0 then ''-'' else []) @ showNat (nat \<lfloor>\<bar>q\<bar>\<rfloor>)),
      jsonParse = (\<lambda>s. if s = ''[]'' then Inr (JArr [])
                        else if s = ''[null]'' then Inr (JArr [JNull])
                        else Inl SyntaxError),
      jsonStringify = (\<lambda>j. [])\<rparr>"

text \<open>Scenario A of the specification: sequence number 1, date 03/07/2024, code 010302,
  status Aktif, the category text and a description; it has no reference code
  (\<^verbatim>\<open>daftar\<close>).\<close>

definition scenarioAFields :: "string \<Rightarrow> (string \<times> json) list" where
  "scenarioAFields description =
     [(''bil'', JNum 1),
      (''tarikh'', JStr ''03/07/2024''),
      (''kod_bidang'', JStr ''010302''),
      (''status'', JStr ''Aktif''),
      (''bidang'', JStr ''PENERBITAN DAN PENYIARAN''),
      (''keterangan'', JStr description)]"

definition scenarioA :: "string \<Rightarrow> json" where
  "scenarioA description = JObj (scenarioAFields description)"


text \<open>An extraction, and four validated examples of it: the reviewer confirmed every
  field; the reviewer corrected the date only; the reviewer corrected the sequence
  number only; the reviewer corrected the code only.\<close>

definition sampleTender :: Tender where
  "sampleTender =
     \<lparr>bil = Some (JNum 1), tarikh = Some (JStr ''2024-07-03''), daftar = Some (JStr ''K-17''),
      bidang = Some (JStr ''PENERBITAN DAN PENYIARAN''), kod_bidang = Some (JStr ''010302''),
      keterangan = Some (JStr ''A full description over ten chars''),
      status = Some (JStr ''Aktif'')\<rparr>"

definition sampleExtraction :: ExtractionResult where
  "sampleExtraction =
     \<lparr>tender = sampleTender,
      confidence = \<lparr>overall = 964 / 1000,
                    per_field = [(''bil'', 1), (''tarikh'', 1), (''daftar'', 9 / 10),
                                 (''bidang'', 95 / 100), (''kod_bidang'', 1),
                                 (''keterangan'', 9 / 10), (''status'', 1)]\<rparr>,
      warnings = [], errors = [], raw_gemini_response = None\<rparr>"

definition validatedAs :: "string \<Rightarrow> Tender \<Rightarrow> TrainingExample" where
  "validatedAs name groundTruth =
     \<lparr>example_id = name, pdf_url = ''https://example.org/p1'', pdf_path = ''p1.pdf'',
      gemini_extraction = sampleExtraction, manual_validation = Some groundTruth,
      confidence_score = 964 / 1000, is_validated = True, created_at = 0,
      improved_at = Some 1, learning_iteration = 1\<rparr>"

definition exampleConfirmed :: TrainingExample where
  "exampleConfirmed = validatedAs ''a'' sampleTender"

definition exampleDateCorrected :: TrainingExample where
  "exampleDateCorrected = validatedAs ''b'' (sampleTender\<lparr>tarikh := Some (JStr ''2024-07-04'')\<rparr>)"

definition exampleBilCorrected :: TrainingExample where
  "exampleBilCorrected = validatedAs ''c'' (sampleTender\<lparr>bil := Some (JNum 2)\<rparr>)"

definition exampleKodCorrected :: TrainingExample where
  "exampleKodCorrected = validatedAs ''d'' (sampleTender\<lparr>kod_bidang := Some (JStr ''010303'')\<rparr>)"

text \<open>Whether a field of a validated example differs from its ground truth, and
  whether the example is one that \<^verbatim>\<open>analyzeFailures\<close> keeps.\<close>

definition mismatch :: "(Tender \<Rightarrow> jsval) \<Rightarrow> TrainingExample \<Rightarrow> bool" where
  "mismatch field example =
     (case manual_validation example of
        None \<Rightarrow> False
      | Some groundTruth \<Rightarrow>
          \<not> strictEq (field (tender (gemini_extraction example))) (field groundTruth))"

definition failing :: "TrainingExample \<Rightarrow> bool" where
  "failing example =
     (case manual_validation example of
        None \<Rightarrow> False
      | Some groundTruth \<Rightarrow>
          criticalFieldsMismatch (tender (gemini_extraction example)) groundTruth)"


section \<open>Properties\<close>

subsection \<open>Date normalization\<close>

lemma length_ten_explode:
  assumes "length s = 10"
  shows "s = [s ! 0, s ! 1, s ! 2, s ! 3, s ! 4, s ! 5, s ! 6, s ! 7, s ! 8, s ! 9]"
  using assms by (auto simp: numeral_eq_Suc length_Suc_conv)

lemma hyphen_not_digit: "\<not> isDigit CHR ''-''"
  by (simp add: isDigit_def)

lemma canonicalDate_fixed:
  assumes "canonicalDate s"
  shows "normalizeDate (JStr s) = Some s"
proof -
  obtain y1 y2 y3 y4 m1 m2 d1 d2 where
    s: "s = [y1, y2, y3, y4, CHR ''-'', m1, m2, CHR ''-'', d1, d2]"
    and dig: "isDigit y1" "isDigit y2" "isDigit y3" "isDigit y4"
             "isDigit m1" "isDigit m2" "isDigit d1" "isDigit d2"
  proof -
    from assms have len: "length s = 10" and h4: "s ! 4 = CHR ''-''" and h7: "s ! 7 = CHR ''-''"
      and ds: "isDigit (s ! 0)" "isDigit (s ! 1)" "isDigit (s ! 2)" "isDigit (s ! 3)"
              "isDigit (s ! 5)" "isDigit (s ! 6)" "isDigit (s ! 8)" "isDigit (s ! 9)"
      by (simp_all add: canonicalDate_def)
    from length_ten_explode [OF len] h4 h7
    have "s = [s ! 0, s ! 1, s ! 2, s ! 3, CHR ''-'', s ! 5, s ! 6, CHR ''-'', s ! 8, s ! 9]"
      by simp
    with ds that show thesis by blast
  qed
  have slash: "\<not> matchesPat re_ddmmyyyy_slash s"
    using dig by (auto simp: s re_ddmmyyyy_slash_def isDigit_def)
  have dash: "\<not> matchesPat re_ddmmyyyy_dash s"
    using dig hyphen_not_digit by (auto simp: s re_ddmmyyyy_dash_def)
  have iso: "matchesPat re_yyyymmdd s"
    using dig by (simp add: s re_yyyymmdd_def)
  show ?thesis using slash dash iso by (simp add: normalizeDate.simps)
qed

text \<open>
  C9. Date normalization leaves every string that is already in the canonical
  YYYY-MM-DD form unchanged, and it turns the day-first string 03/07/2024 into
  2024-07-03 (day 3, month 7, year 2024).
\<close>

theorem normalizeDate_roundtrip:
  "(canonicalDate s \<longrightarrow> normalizeDate (JStr s) = Some s) \<and>
   normalizeDate (JStr ''03/07/2024'') = Some ''2024-07-03''"
proof
  show "canonicalDate s \<longrightarrow> normalizeDate (JStr s) = Some s"
    using canonicalDate_fixed by blast
  show "normalizeDate (JStr ''03/07/2024'') = Some ''2024-07-03''"
    by (simp add: normalizeDate.simps re_ddmmyyyy_slash_def isDigit_def)
qed

theorem normalizeDate_roundtrip_witness:
  "canonicalDate ''2024-07-03'' \<and> normalizeDate (JStr ''2024-07-03'') = Some ''2024-07-03''"
proof -
  have c: "canonicalDate ''2024-07-03''"
    by (simp add: canonicalDate_def isDigit_def)
  from normalizeDate_roundtrip [of "''2024-07-03''"] c show ?thesis by blast
qed

subsection \<open>The record validator\<close>


text \<open>The conversion to a string throws exactly on the values that are not
  \<open>stringable\<close>.\<close>

lemma toStr_stringable:
  "(stringable x \<longrightarrow> (\<exists>s. toStr rt x = Inr s)) \<and> (\<not> stringable x \<longrightarrow> toStr rt x = Inl TypeError)"
  "(stringableElems xs \<longrightarrow> (\<exists>ss. toStrElems rt xs = Inr ss)) \<and>
   (\<not> stringableElems xs \<longrightarrow> toStrElems rt xs = Inl TypeError)"
  by (induction rt x and rt xs rule: toStr_toStrElems.induct)
     (auto split: sum.splits option.splits)

lemma String_convertible: "convertible v \<Longrightarrow> \<exists>s. String rt v = Inr s"
  using toStr_stringable(1) by (cases v) (auto simp: String_def convertible_def)



lemmas step_defs = validateBil_def validateTarikh_def validateDaftar_def validateBidang_def
  validateKodBidang_def validateKeterangan_def validateStatus_def score_def pushError_def























lemma toFixed3_836: "toFixed 3 (117 / 140) = 836 / 1000"
proof -
  have "\<lfloor>(117 / 140 :: rat) * 10 ^ 3 + 1 / 2\<rfloor> = 836"
    by (rule floor_unique) simp_all
  then show ?thesis by (simp add: toFixed_def)
qed

lemma toFixed3_964: "toFixed 3 (27 / 28) = 964 / 1000"
proof -
  have "\<lfloor>(27 / 28 :: rat) * 10 ^ 3 + 1 / 2\<rfloor> = 964"
    by (rule floor_unique) simp_all
  then show ?thesis by (simp add: toFixed_def)
qed

lemma scenario_date: "normalizeDate (JStr ''03/07/2024'') = Some ''2024-07-03''"
  by (simp add: normalizeDate.simps re_ddmmyyyy_slash_def isDigit_def)

lemma scenario_kod: "isValidKodBidang rt (Some (JStr ''010302'')) = Inr True"
  by (simp add: isValidKodBidang_def String_def re_six_digits_def isDigit_def)

lemma scenario_status: "isValidStatus (Some (JStr ''Aktif''))"
  by (simp add: isValidStatus_def)

lemma scenarioA_result:
  assumes "10 < length description"
  shows "\<exists>r. validateAndScoreTender rt (scenarioA description) = Inr r \<and>
             overall (confidence r) = 836 / 1000 \<and> errors r = [''Missing DAFTAR'']"
proof -
  from assms have ne: "description \<noteq> []" and len: "5 < length description" by auto
  show ?thesis
    using ne len
    by (simp add: validateAndScoreTender_def scenarioA_def scenarioAFields_def readProp_def
        step_defs scenario_date scenario_kod scenario_status overallConfidence_def
        toFixed3_836 Let_def)
qed

lemma scenarioA_with_daftar_result:
  assumes "10 < length description" and "ref \<noteq> []"
  shows "\<exists>r. validateAndScoreTender rt (JObj ((''daftar'', JStr ref) # scenarioAFields description)) = Inr r \<and>
             overall (confidence r) = 964 / 1000 \<and> errors r = [] \<and>
             map snd (per_field (confidence r)) = [1, 1, 9 / 10, 95 / 100, 1, 9 / 10, 1]"
proof -
  from assms have ne: "description \<noteq> []" and len: "5 < length description" by auto
  show ?thesis
    using ne len assms(2)
    by (simp add: validateAndScoreTender_def scenarioAFields_def readProp_def
        step_defs scenario_date scenario_kod scenario_status overallConfidence_def
        toFixed3_964 Let_def)
qed

text \<open>
  C2 (as amended). For the Scenario A record, with any description longer than ten
  characters, \<^verbatim>\<open>validateAndScoreTender\<close> returns overall confidence 0.836 and the one
  error "Missing DAFTAR", because the record has no reference code; with a non-empty
  reference code added it returns overall confidence 0.964 and no error, because the
  reference code, the category and the description score 0.9, 0.95 and 0.9.
\<close>

theorem scenarioA_scores:
  assumes "10 < length description"
  shows "(\<exists>r. validateAndScoreTender rt (scenarioA description) = Inr r \<and>
              overall (confidence r) = 836 / 1000 \<and> errors r = [''Missing DAFTAR'']) \<and>
         (ref \<noteq> [] \<longrightarrow>
           (\<exists>r. validateAndScoreTender rt (JObj ((''daftar'', JStr ref) # scenarioAFields description)) = Inr r \<and>
              overall (confidence r) = 964 / 1000 \<and> errors r = []))"
proof (intro conjI impI)
  show "\<exists>r. validateAndScoreTender rt (scenarioA description) = Inr r \<and>
              overall (confidence r) = 836 / 1000 \<and> errors r = [''Missing DAFTAR'']"
    using assms by (rule scenarioA_result)
next
  assume "ref \<noteq> []"
  from scenarioA_with_daftar_result [OF assms this, of rt] obtain r where
    "validateAndScoreTender rt (JObj ((''daftar'', JStr ref) # scenarioAFields description)) = Inr r \<and>
             overall (confidence r) = 964 / 1000 \<and> errors r = [] \<and>
             map snd (per_field (confidence r)) = [1, 1, 9 / 10, 95 / 100, 1, 9 / 10, 1]" ..
  then have "validateAndScoreTender rt (JObj ((''daftar'', JStr ref) # scenarioAFields description)) = Inr r \<and>
              overall (confidence r) = 964 / 1000 \<and> errors r = []"
    by (simp only: simp_thms)
  then show "\<exists>r. validateAndScoreTender rt (JObj ((''daftar'', JStr ref) # scenarioAFields description)) = Inr r \<and>
              overall (confidence r) = 964 / 1000 \<and> errors r = []" ..
qed

theorem scenarioA_scores_witness:
  "10 < length ''A full description over ten chars'' \<and> ''K-17'' \<noteq> [] \<and>
   (\<exists>r. validateAndScoreTender testRuntime (scenarioA ''A full description over ten chars'') = Inr r \<and>
        overall (confidence r) = 836 / 1000 \<and> errors r = [''Missing DAFTAR'']) \<and>
   (\<exists>r. validateAndScoreTender testRuntime
          (JObj ((''daftar'', JStr ''K-17'') # scenarioAFields ''A full description over ten chars'')) = Inr r \<and>
        overall (confidence r) = 964 / 1000 \<and> errors r = [])"
proof -
  have l: "10 < length ''A full description over ten chars''" by simp
  have n: "''K-17'' \<noteq> []" by simp
  from scenarioA_scores [OF l, of testRuntime "''K-17''"] n l show ?thesis
    by (intro conjI) (simp_all only: simp_thms)
qed

text \<open>At the record of the specification the overall confidence is not 1.0 and the
  error list is not empty.\<close>

theorem scenarioA_counterexample:
  "overall (confidence (projr (validateAndScoreTender testRuntime
      (scenarioA ''A full description over ten chars'')))) \<noteq> 1 \<and>
   errors (projr (validateAndScoreTender testRuntime
      (scenarioA ''A full description over ten chars''))) \<noteq> []"
proof -
  have l: "10 < length ''A full description over ten chars''" by simp
  from scenarioA_result [OF l, of testRuntime] obtain r where
    r: "validateAndScoreTender testRuntime (scenarioA ''A full description over ten chars'') = Inr r \<and>
        overall (confidence r) = 836 / 1000 \<and> errors r = [''Missing DAFTAR'']" ..
  then show ?thesis by simp
qed






subsection \<open>The response parser\<close>

lemma parseGeminiResponse_returns: "\<exists>results. parseGeminiResponse rt responseText = Inr results"
  by (simp add: parseGeminiResponse_def split: sum.split)

lemma parseGeminiResponse_no_match:
  "matchJsonArray responseText = None \<Longrightarrow> parseGeminiResponse rt responseText = Inr []"
  by (simp add: parseGeminiResponse_def parseGeminiResponse_try_def)

lemma parseGeminiResponse_bad_json:
  "matchJsonArray responseText = Some jsonMatch \<Longrightarrow> jsonParse rt jsonMatch = Inl e \<Longrightarrow>
   parseGeminiResponse rt responseText = Inr []"
  by (simp add: parseGeminiResponse_def parseGeminiResponse_try_def)

lemma parseGeminiResponse_not_array:
  "matchJsonArray responseText = Some jsonMatch \<Longrightarrow> jsonParse rt jsonMatch = Inr parsed \<Longrightarrow>
   \<not> isArray parsed \<Longrightarrow> parseGeminiResponse rt responseText = Inr []"
  by (simp add: parseGeminiResponse_def parseGeminiResponse_try_def)

lemma parseGeminiResponse_null_item:
  "matchJsonArray responseText = Some jsonMatch \<Longrightarrow>
   jsonParse rt jsonMatch = Inr (JArr (JNull # items)) \<Longrightarrow>
   parseGeminiResponse rt responseText = Inr []"
  by (simp add: parseGeminiResponse_def parseGeminiResponse_try_def validateAndScoreTender_def)

text \<open>
  C8. For every raw response string, \<^verbatim>\<open>parseGeminiResponse\<close> returns and does not throw,
  and it returns the empty list whenever the string contains no bracketed array, or the
  matched text fails to parse as JSON, or it parses to a value that is not an array.
  (\<^verbatim>\<open>JSON.parse\<close> is any function: the theorem holds for every runtime.)
\<close>

theorem parseGeminiResponse_degrades:
  "(\<exists>results. parseGeminiResponse rt responseText = Inr results) \<and>
   ((matchJsonArray responseText = None \<or>
     (\<exists>jsonMatch. matchJsonArray responseText = Some jsonMatch \<and>
        (case jsonParse rt jsonMatch of Inl e \<Rightarrow> True | Inr parsed \<Rightarrow> \<not> isArray parsed))) \<longrightarrow>
    parseGeminiResponse rt responseText = Inr [])"
proof (intro conjI impI)
  show "\<exists>results. parseGeminiResponse rt responseText = Inr results"
    by (rule parseGeminiResponse_returns)
next
  assume "matchJsonArray responseText = None \<or>
     (\<exists>jsonMatch. matchJsonArray responseText = Some jsonMatch \<and>
        (case jsonParse rt jsonMatch of Inl e \<Rightarrow> True | Inr parsed \<Rightarrow> \<not> isArray parsed))"
  then show "parseGeminiResponse rt responseText = Inr []"
  proof
    assume "matchJsonArray responseText = None"
    then show ?thesis by (rule parseGeminiResponse_no_match)
  next
    assume "\<exists>jsonMatch. matchJsonArray responseText = Some jsonMatch \<and>
        (case jsonParse rt jsonMatch of Inl e \<Rightarrow> True | Inr parsed \<Rightarrow> \<not> isArray parsed)"
    then obtain jsonMatch where m: "matchJsonArray responseText = Some jsonMatch"
      and p: "case jsonParse rt jsonMatch of Inl e \<Rightarrow> True | Inr parsed \<Rightarrow> \<not> isArray parsed"
      by (elim exE conjE)
    show ?thesis
    proof (cases "jsonParse rt jsonMatch")
      case (Inl e)
      with m show ?thesis by (rule parseGeminiResponse_bad_json)
    next
      case (Inr parsed)
      with p have "\<not> isArray parsed" by simp
      with m Inr show ?thesis by (rule parseGeminiResponse_not_array)
    qed
  qed
qed

lemma match_none: "matchJsonArray ''Sorry, no table found.'' = None"
  by (simp add: matchJsonArray_def)

lemma match_oops: "matchJsonArray ''Here: [oops] done'' = Some ''[oops]''"
  by (simp add: matchJsonArray_def)

lemma match_empty: "matchJsonArray ''[]'' = Some ''[]''"
  by (simp add: matchJsonArray_def)

theorem parseGeminiResponse_degrades_witness:
  "matchJsonArray ''Sorry, no table found.'' = None \<and>
   parseGeminiResponse testRuntime ''Sorry, no table found.'' = Inr [] \<and>
   matchJsonArray ''Here: [oops] done'' = Some ''[oops]'' \<and>
   jsonParse testRuntime ''[oops]'' = Inl SyntaxError \<and>
   parseGeminiResponse testRuntime ''Here: [oops] done'' = Inr [] \<and>
   jsonParse (testRuntime\<lparr>jsonParse := \<lambda>s. Inr (JObj [])\<rparr>) ''[]'' = Inr (JObj []) \<and>
   \<not> isArray (JObj []) \<and>
   parseGeminiResponse (testRuntime\<lparr>jsonParse := \<lambda>s. Inr (JObj [])\<rparr>) ''[]'' = Inr []"
proof -
  have p2: "jsonParse testRuntime ''[oops]'' = Inl SyntaxError"
    by (simp add: testRuntime_def)
  have p3: "jsonParse (testRuntime\<lparr>jsonParse := \<lambda>s. Inr (JObj [])\<rparr>) ''[]'' = Inr (JObj [])"
    by simp
  have a: "parseGeminiResponse testRuntime ''Sorry, no table found.'' = Inr []"
    using parseGeminiResponse_degrades [of testRuntime "''Sorry, no table found.''"] match_none
    by simp
  have b: "parseGeminiResponse testRuntime ''Here: [oops] done'' = Inr []"
    using parseGeminiResponse_degrades [of testRuntime "''Here: [oops] done''"] match_oops p2
    by simp
  have c: "parseGeminiResponse (testRuntime\<lparr>jsonParse := \<lambda>s. Inr (JObj [])\<rparr>) ''[]'' = Inr []"
    using parseGeminiResponse_degrades [of "testRuntime\<lparr>jsonParse := \<lambda>s. Inr (JObj [])\<rparr>" "''[]''"]
      match_empty p3
    by simp
  show ?thesis
    using a b c p2 p3 match_none match_oops by simp
qed

subsection \<open>The example store\<close>

lemma set_setProp: "set (setProp k v m) \<subseteq> insert (k, v) (set m)"
  by (induction m) (auto split: if_splits)

lemma storeInvariant_setProp:
  "storeInvariant dir \<Longrightarrow> is_validated example = (manual_validation example \<noteq> None) \<Longrightarrow>
   storeInvariant (setProp k example dir)"
  using set_setProp [of k example dir]
  by (fastforce simp: storeInvariant_def list_all_iff)

lemma saveLoop_invariant:
  "storeInvariant dir \<Longrightarrow>
   storeInvariant (fst (saveLoop uuidv4 clock pdfPath pdfUrl it i xs dir))"
proof (induction xs arbitrary: i dir)
  case Nil
  then show ?case by simp
next
  case (Cons x xs)
  let ?example = "\<lparr>example_id = uuidv4 i, pdf_url = pdfUrl, pdf_path = pdfPath,
                     gemini_extraction = x, manual_validation = None,
                     confidence_score = overall (confidence x), is_validated = False,
                     created_at = clock i, improved_at = None,
                     learning_iteration = it\<rparr>"
  have "storeInvariant (setProp (uuidv4 i) ?example dir)"
    using Cons.prems by (rule storeInvariant_setProp) simp
  from Cons.IH [OF this, of "Suc i"] show ?case
    by (simp add: Let_def case_prod_beta)
qed

lemma saveLoop_unvalidated:
  "e \<in> set (snd (saveLoop uuidv4 clock pdfPath pdfUrl it i xs dir)) \<Longrightarrow>
   \<not> is_validated e \<and> manual_validation e = None"
proof (induction xs arbitrary: i dir)
  case Nil
  then show ?case by simp
next
  case (Cons x xs)
  then show ?case
    by (auto simp: Let_def case_prod_beta)
qed

lemma validateExample_sets_both:
  "validateExample now exampleId validatedTender dir = Inr (dir', e) \<Longrightarrow>
   is_validated e \<and> manual_validation e = Some validatedTender"
  by (auto simp: validateExample_def Let_def split: option.splits)

lemma validateExample_invariant:
  "storeInvariant dir \<Longrightarrow> validateExample now exampleId validatedTender dir = Inr (dir', e) \<Longrightarrow>
   storeInvariant dir'"
  by (auto simp: validateExample_def Let_def split: option.splits intro!: storeInvariant_setProp)

lemma applyOp_invariant: "storeInvariant dir \<Longrightarrow> storeInvariant (applyOp dir op)"
proof (cases op)
  case (SaveTrainingExample uuidv4 clock pdfPath pdfUrl xs it)
  assume "storeInvariant dir"
  then show ?thesis
    by (simp add: SaveTrainingExample saveTrainingExample_def saveLoop_invariant)
next
  case (ValidateExample now exampleId validatedTender)
  assume inv: "storeInvariant dir"
  show ?thesis
  proof (cases "validateExample now exampleId validatedTender dir")
    case (Inl e)
    with inv show ?thesis by (simp add: ValidateExample)
  next
    case (Inr p)
    obtain dir' e where p: "p = (dir', e)" by (cases p)
    from validateExample_invariant [OF inv Inr [unfolded p]] show ?thesis
      by (simp add: ValidateExample Inr p)
  qed
qed

lemma runOps_invariant: "storeInvariant dir \<Longrightarrow> storeInvariant (runOps ops dir)"
  unfolding runOps_def
  by (induction ops arbitrary: dir) (simp_all add: applyOp_invariant)

text \<open>
  C3. After any sequence of \<^verbatim>\<open>saveTrainingExample\<close> and \<^verbatim>\<open>validateExample\<close> calls on an
  empty store, every stored example is marked validated exactly when a ground truth is
  attached; \<^verbatim>\<open>saveTrainingExample\<close> produces only examples that are not validated and
  have no ground truth; and \<^verbatim>\<open>validateExample\<close>, when the example exists, sets the mark
  and attaches the ground truth together.
\<close>

theorem store_validated_iff_ground_truth:
  "storeInvariant (runOps ops []) \<and>
   (\<forall>e \<in> set (snd (saveTrainingExample uuidv4 clock pdfPath pdfUrl xs it dir)).
      \<not> is_validated e \<and> manual_validation e = None) \<and>
   (validateExample now exampleId validatedTender dir = Inr (dir', e') \<longrightarrow>
      is_validated e' \<and> manual_validation e' = Some validatedTender)"
proof (intro conjI ballI impI)
  show "storeInvariant (runOps ops [])"
    by (rule runOps_invariant) (simp add: storeInvariant_def)
next
  fix e assume "e \<in> set (snd (saveTrainingExample uuidv4 clock pdfPath pdfUrl xs it dir))"
  then show "\<not> is_validated e" "manual_validation e = None"
    using saveLoop_unvalidated unfolding saveTrainingExample_def by blast+
next
  assume "validateExample now exampleId validatedTender dir = Inr (dir', e')"
  then show "is_validated e'" "manual_validation e' = Some validatedTender"
    using validateExample_sets_both by blast+
qed

theorem store_validated_iff_ground_truth_witness:
  "storeInvariant
     (runOps [SaveTrainingExample (\<lambda>i. ''u0'') (\<lambda>i. 0) ''p1.pdf'' ''https://example.org/p1''
                [sampleExtraction] 1,
              ValidateExample 1 ''u0'' sampleTender] []) \<and>
   map (\<lambda>(k, e). (k, is_validated e, manual_validation e))
     (runOps [SaveTrainingExample (\<lambda>i. ''u0'') (\<lambda>i. 0) ''p1.pdf'' ''https://example.org/p1''
                [sampleExtraction] 1,
              ValidateExample 1 ''u0'' sampleTender] []) = [(''u0'', True, Some sampleTender)] \<and>
   map (\<lambda>e. (is_validated e, manual_validation e))
     (snd (saveTrainingExample (\<lambda>i. ''u0'') (\<lambda>i. 0) ''p1.pdf'' ''https://example.org/p1''
                [sampleExtraction] 1 [])) = [(False, None)]"
proof -
  let ?ops = "[SaveTrainingExample (\<lambda>i. ''u0'') (\<lambda>i. 0) ''p1.pdf'' ''https://example.org/p1''
                [sampleExtraction] 1,
              ValidateExample 1 ''u0'' sampleTender]"
  have inv: "storeInvariant (runOps ?ops [])"
    using store_validated_iff_ground_truth [where ops = ?ops] by (rule conjunct1)
  have run: "map (\<lambda>(k, e). (k, is_validated e, manual_validation e)) (runOps ?ops [])
               = [(''u0'', True, Some sampleTender)]"
    by (simp add: runOps_def saveTrainingExample_def validateExample_def Let_def)
  have saved: "map (\<lambda>e. (is_validated e, manual_validation e))
     (snd (saveTrainingExample (\<lambda>i. ''u0'') (\<lambda>i. 0) ''p1.pdf'' ''https://example.org/p1''
                [sampleExtraction] 1 [])) = [(False, None)]"
    by (simp add: saveTrainingExample_def Let_def)
  from inv run saved show ?thesis by (intro conjI)
qed

subsection \<open>Failure patterns and the prompt\<close>

lemma set_addPattern: "set (addPattern t patterns) = insert t (set patterns)"
  by (auto simp: addPattern_def)

lemma set_patternsLoop:
  "set (patternsLoop failures patterns) =
     set patterns \<union>
     (\<Union>f \<in> set failures.
        {t. t = ''code_format'' \<and> flag (field_mismatches f) ''kod_bidang'' \<or>
            t = ''status_format'' \<and> flag (field_mismatches f) ''status'' \<or>
            t = ''text_content'' \<and>
              (flag (field_mismatches f) ''bidang'' \<or> flag (field_mismatches f) ''keterangan'') \<or>
            t = ''date_format'' \<and> flag (field_mismatches f) ''tarikh''})"
proof (induction failures arbitrary: patterns)
  case Nil
  then show ?case by simp
next
  case (Cons f failures)
  show ?case
    unfolding patternsLoop.simps Let_def Cons.IH
    by (auto simp: set_addPattern)
qed

lemma field_mismatches_extend:
  "field_mismatches (TrainingExample.extend example (Failure.fields m)) = m"
  by (simp add: TrainingExample.extend_def Failure.fields_def)

lemma ex_failure_iff:
  "(\<exists>f \<in> set (analyzeFailures validated). P (field_mismatches f)) \<longleftrightarrow>
     (\<exists>example \<in> set validated. \<exists>g. manual_validation example = Some g \<and>
        criticalFieldsMismatch (tender (gemini_extraction example)) g \<and>
        P (fieldMismatches (tender (gemini_extraction example)) g))"
  by (induction validated) (auto simp: Let_def field_mismatches_extend split: option.splits)

lemma failing_iff:
  "failing example \<longleftrightarrow>
     (\<exists>g. manual_validation example = Some g \<and>
          criticalFieldsMismatch (tender (gemini_extraction example)) g)"
  by (cases "manual_validation example") (simp_all add: failing_def)

lemma mismatch_iff:
  "mismatch field example \<longleftrightarrow>
     (\<exists>g. manual_validation example = Some g \<and>
          \<not> strictEq (field (tender (gemini_extraction example))) (field g))"
  by (cases "manual_validation example") (simp_all add: mismatch_def)

lemma tag_by_flags:
  "t \<in> set (identifyFailurePatterns failures) \<longleftrightarrow>
     (\<exists>f \<in> set failures.
        t = ''code_format'' \<and> flag (field_mismatches f) ''kod_bidang'' \<or>
        t = ''status_format'' \<and> flag (field_mismatches f) ''status'' \<or>
        t = ''text_content'' \<and>
          (flag (field_mismatches f) ''bidang'' \<or> flag (field_mismatches f) ''keterangan'') \<or>
        t = ''date_format'' \<and> flag (field_mismatches f) ''tarikh'')"
  unfolding identifyFailurePatterns_def set_patternsLoop by simp

lemma flag_fieldMismatches:
  "flag (fieldMismatches e g) ''kod_bidang'' = (\<not> strictEq (kod_bidang e) (kod_bidang g))"
  "flag (fieldMismatches e g) ''status'' = (\<not> strictEq (status e) (status g))"
  "flag (fieldMismatches e g) ''bidang'' = (\<not> strictEq (bidang e) (bidang g))"
  "flag (fieldMismatches e g) ''tarikh'' = (\<not> strictEq (tarikh e) (tarikh g))"
  "flag (fieldMismatches e g) ''keterangan'' = False"
  by (simp_all add: flag_def fieldMismatches_def)

lemma tag_iff_raw:
  "t \<in> set (identifyFailurePatterns (analyzeFailures validated)) \<longleftrightarrow>
     (\<exists>example \<in> set validated. \<exists>g. manual_validation example = Some g \<and>
        criticalFieldsMismatch (tender (gemini_extraction example)) g \<and>
        (t = ''code_format'' \<and>
           \<not> strictEq (kod_bidang (tender (gemini_extraction example))) (kod_bidang g) \<or>
         t = ''status_format'' \<and>
           \<not> strictEq (status (tender (gemini_extraction example))) (status g) \<or>
         t = ''text_content'' \<and>
           \<not> strictEq (bidang (tender (gemini_extraction example))) (bidang g) \<or>
         t = ''date_format'' \<and>
           \<not> strictEq (tarikh (tender (gemini_extraction example))) (tarikh g)))"
  unfolding tag_by_flags
  by (simp add: flag_fieldMismatches
      ex_failure_iff [where P = "\<lambda>m. t = ''code_format'' \<and> flag m ''kod_bidang'' \<or>
        t = ''status_format'' \<and> flag m ''status'' \<or>
        t = ''text_content'' \<and> (flag m ''bidang'' \<or> flag m ''keterangan'') \<or>
        t = ''date_format'' \<and> flag m ''tarikh''"])

lemma per_example:
  "(\<exists>g. manual_validation example = Some g \<and>
        criticalFieldsMismatch (tender (gemini_extraction example)) g \<and>
        (t = ''code_format'' \<and>
           \<not> strictEq (kod_bidang (tender (gemini_extraction example))) (kod_bidang g) \<or>
         t = ''status_format'' \<and>
           \<not> strictEq (status (tender (gemini_extraction example))) (status g) \<or>
         t = ''text_content'' \<and>
           \<not> strictEq (bidang (tender (gemini_extraction example))) (bidang g) \<or>
         t = ''date_format'' \<and>
           \<not> strictEq (tarikh (tender (gemini_extraction example))) (tarikh g))) \<longleftrightarrow>
   (failing example \<and>
        (t = ''code_format'' \<and> mismatch kod_bidang example \<or>
         t = ''status_format'' \<and> mismatch status example \<or>
         t = ''text_content'' \<and> mismatch bidang example \<or>
         t = ''date_format'' \<and> mismatch tarikh example))"
  by (cases "manual_validation example") (simp_all add: failing_def mismatch_def)

lemma tag_iff:
  "t \<in> set (identifyFailurePatterns (analyzeFailures validated)) \<longleftrightarrow>
     (\<exists>example \<in> set validated. failing example \<and>
        (t = ''code_format'' \<and> mismatch kod_bidang example \<or>
         t = ''status_format'' \<and> mismatch status example \<or>
         t = ''text_content'' \<and> mismatch bidang example \<or>
         t = ''date_format'' \<and> mismatch tarikh example))"
  by (simp only: tag_iff_raw per_example)

text \<open>
  C5 (as amended). For every list of validated examples, the tags that
  \<^verbatim>\<open>identifyFailurePatterns\<close> returns for their failing examples come from the fixed
  vocabulary; the result is empty when no example mismatches its ground truth in
  kod_bidang, status, bidang, tarikh or keterangan (a mismatch of bil or daftar has no
  tag); and it holds at least one tag whenever some failing example mismatches in
  kod_bidang, status, bidang or tarikh.
\<close>

theorem identifyFailurePatterns_tags:
  "set (identifyFailurePatterns (analyzeFailures validated)) \<subseteq> set vocabulary \<and>
   ((\<forall>example \<in> set validated.
        \<not> mismatch kod_bidang example \<and> \<not> mismatch status example \<and>
        \<not> mismatch bidang example \<and> \<not> mismatch tarikh example \<and>
        \<not> mismatch keterangan example) \<longrightarrow>
      identifyFailurePatterns (analyzeFailures validated) = []) \<and>
   ((\<exists>example \<in> set validated. failing example \<and>
        (mismatch kod_bidang example \<or> mismatch status example \<or>
         mismatch bidang example \<or> mismatch tarikh example)) \<longrightarrow>
      identifyFailurePatterns (analyzeFailures validated) \<noteq> [])"
proof (intro conjI impI)
  show "set (identifyFailurePatterns (analyzeFailures validated)) \<subseteq> set vocabulary"
  proof
    fix t assume "t \<in> set (identifyFailurePatterns (analyzeFailures validated))"
    then obtain example where "t = ''code_format'' \<and> mismatch kod_bidang example \<or>
         t = ''status_format'' \<and> mismatch status example \<or>
         t = ''text_content'' \<and> mismatch bidang example \<or>
         t = ''date_format'' \<and> mismatch tarikh example"
      unfolding tag_iff by (elim bexE conjE)
    then show "t \<in> set vocabulary"
      by (elim disjE conjE) (simp_all add: vocabulary_def)
  qed
next
  assume none: "\<forall>example \<in> set validated.
        \<not> mismatch kod_bidang example \<and> \<not> mismatch status example \<and>
        \<not> mismatch bidang example \<and> \<not> mismatch tarikh example \<and>
        \<not> mismatch keterangan example"
  have "t \<notin> set (identifyFailurePatterns (analyzeFailures validated))" for t
    unfolding tag_iff using none by simp
  then have "set (identifyFailurePatterns (analyzeFailures validated)) = {}"
    by (simp only: set_eq_iff empty_iff simp_thms)
  then show "identifyFailurePatterns (analyzeFailures validated) = []"
    by (simp only: set_empty)
next
  assume "\<exists>example \<in> set validated. failing example \<and>
        (mismatch kod_bidang example \<or> mismatch status example \<or>
         mismatch bidang example \<or> mismatch tarikh example)"
  then obtain example where ex: "example \<in> set validated" and f: "failing example"
    and m: "mismatch kod_bidang example \<or> mismatch status example \<or>
         mismatch bidang example \<or> mismatch tarikh example"
    by (elim bexE conjE)
  from m have "\<exists>t. t \<in> set (identifyFailurePatterns (analyzeFailures validated))"
  proof (elim disjE)
    assume "mismatch kod_bidang example"
    with ex f have "''code_format'' \<in> set (identifyFailurePatterns (analyzeFailures validated))"
      unfolding tag_iff by (intro bexI [of _ example]) simp_all
    then show ?thesis ..
  next
    assume "mismatch status example"
    with ex f have "''status_format'' \<in> set (identifyFailurePatterns (analyzeFailures validated))"
      unfolding tag_iff by (intro bexI [of _ example]) simp_all
    then show ?thesis ..
  next
    assume "mismatch bidang example"
    with ex f have "''text_content'' \<in> set (identifyFailurePatterns (analyzeFailures validated))"
      unfolding tag_iff by (intro bexI [of _ example]) simp_all
    then show ?thesis ..
  next
    assume "mismatch tarikh example"
    with ex f have "''date_format'' \<in> set (identifyFailurePatterns (analyzeFailures validated))"
      unfolding tag_iff by (intro bexI [of _ example]) simp_all
    then show ?thesis ..
  qed
  then obtain t where "t \<in> set (identifyFailurePatterns (analyzeFailures validated))" ..
  then show "identifyFailurePatterns (analyzeFailures validated) \<noteq> []"
    by (cases "identifyFailurePatterns (analyzeFailures validated)") simp_all
qed

lemmas example_defs = exampleConfirmed_def exampleDateCorrected_def exampleBilCorrected_def
  exampleKodCorrected_def validatedAs_def sampleExtraction_def sampleTender_def

lemma bil_only_facts:
  "failing exampleBilCorrected" "mismatch bil exampleBilCorrected"
  "\<not> mismatch kod_bidang exampleBilCorrected" "\<not> mismatch status exampleBilCorrected"
  "\<not> mismatch bidang exampleBilCorrected" "\<not> mismatch tarikh exampleBilCorrected"
  "\<not> mismatch keterangan exampleBilCorrected"
  by (simp_all add: failing_def mismatch_def criticalFieldsMismatch_def example_defs)

lemma confirmed_facts:
  "\<not> failing exampleConfirmed"
  "\<not> mismatch kod_bidang exampleConfirmed" "\<not> mismatch status exampleConfirmed"
  "\<not> mismatch bidang exampleConfirmed" "\<not> mismatch tarikh exampleConfirmed"
  "\<not> mismatch keterangan exampleConfirmed"
  by (simp_all add: failing_def mismatch_def criticalFieldsMismatch_def example_defs)

lemma kod_only_facts:
  "failing exampleKodCorrected" "mismatch kod_bidang exampleKodCorrected"
  by (simp_all add: failing_def mismatch_def criticalFieldsMismatch_def example_defs)

text \<open>A failing example whose only mismatch is the sequence number gets no tag.\<close>

theorem identifyFailurePatterns_bil_counterexample:
  "failing exampleBilCorrected \<and> mismatch bil exampleBilCorrected \<and>
   identifyFailurePatterns (analyzeFailures [exampleBilCorrected]) = []"
proof -
  have "t \<notin> set (identifyFailurePatterns (analyzeFailures [exampleBilCorrected]))" for t
    unfolding tag_iff by (simp add: bil_only_facts)
  then have "set (identifyFailurePatterns (analyzeFailures [exampleBilCorrected])) = {}"
    by (simp only: set_eq_iff empty_iff simp_thms)
  then have "identifyFailurePatterns (analyzeFailures [exampleBilCorrected]) = []"
    by (simp only: set_empty)
  with bil_only_facts(1,2) show ?thesis by (intro conjI)
qed

theorem identifyFailurePatterns_tags_witness:
  "\<not> mismatch kod_bidang exampleBilCorrected \<and> \<not> mismatch status exampleBilCorrected \<and>
   \<not> mismatch bidang exampleBilCorrected \<and> \<not> mismatch tarikh exampleBilCorrected \<and>
   \<not> mismatch keterangan exampleBilCorrected \<and>
   identifyFailurePatterns (analyzeFailures [exampleConfirmed, exampleBilCorrected]) = [] \<and>
   failing exampleKodCorrected \<and> mismatch kod_bidang exampleKodCorrected \<and>
   identifyFailurePatterns (analyzeFailures [exampleConfirmed, exampleKodCorrected]) \<noteq> []"
proof -
  have a: "\<forall>example \<in> set [exampleConfirmed, exampleBilCorrected].
        \<not> mismatch kod_bidang example \<and> \<not> mismatch status example \<and>
        \<not> mismatch bidang example \<and> \<not> mismatch tarikh example \<and>
        \<not> mismatch keterangan example"
    by (simp add: bil_only_facts confirmed_facts)
  have b: "\<exists>example \<in> set [exampleConfirmed, exampleKodCorrected]. failing example \<and>
        (mismatch kod_bidang example \<or> mismatch status example \<or>
         mismatch bidang example \<or> mismatch tarikh example)"
    by (simp add: kod_only_facts)
  have c: "identifyFailurePatterns (analyzeFailures [exampleConfirmed, exampleBilCorrected]) = []"
    by (rule identifyFailurePatterns_tags [of "[exampleConfirmed, exampleBilCorrected]",
          THEN conjunct2, THEN conjunct1, THEN mp, OF a])
  have d: "identifyFailurePatterns (analyzeFailures [exampleConfirmed, exampleKodCorrected]) \<noteq> []"
    by (rule identifyFailurePatterns_tags [of "[exampleConfirmed, exampleKodCorrected]",
          THEN conjunct2, THEN conjunct2, THEN mp, OF b])
  from bil_only_facts(3-7) c kod_only_facts d show ?thesis by (intro conjI)
qed

subsection \<open>The prompt refiner\<close>

lemma generateImprovedPrompt_by_tags:
  "generateImprovedPrompt failures =
     promptHeader @
     concat (map clauseOf (filter (\<lambda>t. t \<in> set (identifyFailurePatterns failures)) vocabulary)) @
     promptFooter"
  by (simp add: generateImprovedPrompt_def Let_def vocabulary_def clauseOf_def)

lemma tags_of_repeated:
  "set (identifyFailurePatterns (failures @ failures)) = set (identifyFailurePatterns failures)"
  by (auto simp: tag_by_flags)

text \<open>
  C7. The refined prompt is the canonical header, then the clause of each vocabulary tag
  that is present, once and in the vocabulary's order, then the canonical footer. So
  two failure sets with the same tags give character-identical documents, repeating
  the failures adds no clause, and installing the refined prompt twice leaves the same
  instruction text as installing it once.
\<close>

theorem generateImprovedPrompt_idempotent:
  "generateImprovedPrompt failures =
     promptHeader @
     concat (map clauseOf (filter (\<lambda>t. t \<in> set (identifyFailurePatterns failures)) vocabulary)) @
     promptFooter \<and>
   distinct vocabulary \<and>
   (set (identifyFailurePatterns failures) = set (identifyFailurePatterns failures') \<longrightarrow>
      generateImprovedPrompt failures = generateImprovedPrompt failures') \<and>
   generateImprovedPrompt (failures @ failures) = generateImprovedPrompt failures \<and>
   extractionPrompt (updatePrompt (generateImprovedPrompt failures)
                      (updatePrompt (generateImprovedPrompt failures) extractor)) =
     extractionPrompt (updatePrompt (generateImprovedPrompt failures) extractor)"
proof (intro conjI impI)
  show "generateImprovedPrompt failures =
     promptHeader @
     concat (map clauseOf (filter (\<lambda>t. t \<in> set (identifyFailurePatterns failures)) vocabulary)) @
     promptFooter"
    by (rule generateImprovedPrompt_by_tags)
  show "distinct vocabulary"
    by (simp add: vocabulary_def)
  show "generateImprovedPrompt (failures @ failures) = generateImprovedPrompt failures"
    by (simp only: generateImprovedPrompt_by_tags tags_of_repeated)
  show "extractionPrompt (updatePrompt (generateImprovedPrompt failures)
                      (updatePrompt (generateImprovedPrompt failures) extractor)) =
     extractionPrompt (updatePrompt (generateImprovedPrompt failures) extractor)"
    by (simp add: updatePrompt_def)
next
  assume "set (identifyFailurePatterns failures) = set (identifyFailurePatterns failures')"
  then show "generateImprovedPrompt failures = generateImprovedPrompt failures'"
    by (simp only: generateImprovedPrompt_by_tags)
qed

lemma kod_tags: "identifyFailurePatterns (analyzeFailures [exampleKodCorrected]) = [''code_format'']"
  by (simp add: identifyFailurePatterns_def example_defs criticalFieldsMismatch_def
      fieldMismatches_def flag_def addPattern_def field_mismatches_extend Let_def)

lemma kod_tags_twice:
  "identifyFailurePatterns (analyzeFailures [exampleKodCorrected, exampleKodCorrected]) = [''code_format'']"
  by (simp add: identifyFailurePatterns_def example_defs criticalFieldsMismatch_def
      fieldMismatches_def flag_def addPattern_def field_mismatches_extend Let_def)

theorem generateImprovedPrompt_idempotent_witness:
  "set (identifyFailurePatterns (analyzeFailures [exampleKodCorrected])) =
     set (identifyFailurePatterns (analyzeFailures [exampleKodCorrected, exampleKodCorrected])) \<and>
   generateImprovedPrompt (analyzeFailures [exampleKodCorrected]) =
     generateImprovedPrompt (analyzeFailures [exampleKodCorrected, exampleKodCorrected]) \<and>
   generateImprovedPrompt (analyzeFailures [exampleKodCorrected]) =
     promptHeader @ clause_code_format @ promptFooter"
proof -
  have s: "set (identifyFailurePatterns (analyzeFailures [exampleKodCorrected])) =
     set (identifyFailurePatterns (analyzeFailures [exampleKodCorrected, exampleKodCorrected]))"
    by (simp only: kod_tags kod_tags_twice)
  note t = generateImprovedPrompt_idempotent
    [of "analyzeFailures [exampleKodCorrected]"
        "analyzeFailures [exampleKodCorrected, exampleKodCorrected]"]
  have e: "generateImprovedPrompt (analyzeFailures [exampleKodCorrected]) =
     generateImprovedPrompt (analyzeFailures [exampleKodCorrected, exampleKodCorrected])"
    by (rule t [THEN conjunct2, THEN conjunct2, THEN conjunct1, THEN mp, OF s])
  have "generateImprovedPrompt (analyzeFailures [exampleKodCorrected]) =
     promptHeader @
     concat (map clauseOf (filter (\<lambda>t. t \<in> set (identifyFailurePatterns (analyzeFailures [exampleKodCorrected]))) vocabulary)) @
     promptFooter"
    by (rule t [THEN conjunct1])
  then have f: "generateImprovedPrompt (analyzeFailures [exampleKodCorrected]) =
     promptHeader @ clause_code_format @ promptFooter"
    unfolding kod_tags by (simp add: vocabulary_def clauseOf_def)
  from s e f show ?thesis by (intro conjI)
qed

subsection \<open>The accuracy percentage\<close>

lemma fieldsMatch_critical_and_date:
  "fieldsMatch extracted groundTruth \<longleftrightarrow>
     \<not> criticalFieldsMismatch extracted groundTruth \<and>
     strictEq (tarikh extracted) (tarikh groundTruth)"
  by (auto simp: fieldsMatch_def criticalFieldsMismatch_def)

lemma correctCount_append:
  "correctCount (validated @ [example]) =
     correctCount validated +
     (case manual_validation example of
        None \<Rightarrow> 0
      | Some g \<Rightarrow> if fieldsMatch (tender (gemini_extraction example)) g then 1 else 0)"
  by (induction validated) (simp_all split: option.split)

lemma correctCount_le_length: "correctCount validated \<le> length validated"
  by (induction validated) (simp_all split: option.split)

lemma toFixed_mono:
  assumes "0 \<le> x" and "x \<le> y"
  shows "toFixed d x \<le> toFixed d y"
proof -
  have "x * 10 ^ d + 1 / 2 \<le> y * 10 ^ d + 1 / 2"
    using assms(2) by (simp add: mult_right_mono)
  then have "\<lfloor>x * 10 ^ d + 1 / 2\<rfloor> \<le> \<lfloor>y * 10 ^ d + 1 / 2\<rfloor>"
    by (rule floor_mono)
  then have "(of_int \<lfloor>x * 10 ^ d + 1 / 2\<rfloor> :: rat) / 10 ^ d \<le> of_int \<lfloor>y * 10 ^ d + 1 / 2\<rfloor> / 10 ^ d"
    by (simp add: divide_right_mono)
  with assms show ?thesis by (simp add: toFixed_def)
qed

lemma toFixed_zero: "toFixed d 0 = 0"
proof -
  have "\<lfloor>(1 / 2 :: rat)\<rfloor> = 0" by (rule floor_unique) simp_all
  then show ?thesis by (simp add: toFixed_def)
qed

lemma toFixed_nonneg: "0 \<le> x \<Longrightarrow> 0 \<le> toFixed d x"
  using toFixed_mono [of 0 x d] by (simp add: toFixed_zero)

lemma toFixed2_int: "toFixed 2 (of_int n) = of_int n" if "0 \<le> n" for n :: int
proof -
  have "\<lfloor>(of_int n :: rat) * 10 ^ 2 + 1 / 2\<rfloor> = n * 100"
    by (rule floor_unique) simp_all
  with that show ?thesis by (simp add: toFixed_def)
qed

lemma accuracyOf_empty: "accuracyOf [] = 0"
  by (simp add: accuracyOf_def)

lemma ratio_mono_correct:
  assumes "c \<le> n" and "0 < n"
  shows "(of_nat c :: rat) / of_nat n \<le> of_nat (Suc c) / of_nat (Suc n)"
proof -
  have "c * Suc n \<le> Suc c * n" using assms by simp
  then have "(of_nat (c * Suc n) :: rat) \<le> of_nat (Suc c * n)"
    by (simp only: of_nat_le_iff)
  then have "(of_nat c :: rat) * of_nat (Suc n) \<le> of_nat (Suc c) * of_nat n"
    by (simp only: of_nat_mult)
  with assms(2) show ?thesis
    by (simp add: frac_le_eq divide_le_0_iff field_simps)
qed

lemma ratio_mono_incorrect:
  "0 < n \<Longrightarrow> (of_nat c :: rat) / of_nat (Suc n) \<le> of_nat c / of_nat n"
  by (simp add: frac_le)

lemma accuracyOf_append_match:
  assumes "manual_validation example = Some g"
    and "fieldsMatch (tender (gemini_extraction example)) g"
  shows "accuracyOf validated \<le> accuracyOf (validated @ [example])"
proof (cases "validated = []")
  case True
  then show ?thesis
    using toFixed_nonneg [of "of_nat (correctCount [example]) / of_nat (length [example]) * 100" 2]
    by (simp add: accuracyOf_def)
next
  case False
  then have n: "0 < length validated" by simp
  have cc: "correctCount (validated @ [example]) = Suc (correctCount validated)"
    using assms by (simp add: correctCount_append)
  have "(of_nat (correctCount validated) :: rat) / of_nat (length validated) * 100
          \<le> of_nat (Suc (correctCount validated)) / of_nat (Suc (length validated)) * 100"
    using ratio_mono_correct [OF correctCount_le_length n] by (rule mult_right_mono) simp
  moreover have "(0::rat) \<le> of_nat (correctCount validated) / of_nat (length validated) * 100"
    by simp
  ultimately have "toFixed 2 (of_nat (correctCount validated) / of_nat (length validated) * 100)
          \<le> toFixed 2 (of_nat (Suc (correctCount validated)) / of_nat (Suc (length validated)) * 100)"
    by (rule toFixed_mono [rotated])
  with False cc show ?thesis by (simp add: accuracyOf_def)
qed

lemma accuracyOf_append_no_match:
  assumes "\<not> (\<exists>g. manual_validation example = Some g \<and>
                 fieldsMatch (tender (gemini_extraction example)) g)"
  shows "accuracyOf (validated @ [example]) \<le> accuracyOf validated"
proof (cases "validated = []")
  case True
  have "correctCount [example] = 0"
    using assms by (simp split: option.split)
  with True show ?thesis by (simp add: accuracyOf_def toFixed_zero)
next
  case False
  then have n: "0 < length validated" by simp
  have cc: "correctCount (validated @ [example]) = correctCount validated"
    using assms by (simp add: correctCount_append split: option.split)
  have "(of_nat (correctCount validated) :: rat) / of_nat (Suc (length validated)) * 100
          \<le> of_nat (correctCount validated) / of_nat (length validated) * 100"
    using ratio_mono_incorrect [OF n, of "correctCount validated"]
    by (rule mult_right_mono) simp
  moreover have "(0::rat) \<le> of_nat (correctCount validated) / of_nat (Suc (length validated)) * 100"
    by simp
  ultimately have "toFixed 2 (of_nat (correctCount validated) / of_nat (Suc (length validated)) * 100)
          \<le> toFixed 2 (of_nat (correctCount validated) / of_nat (length validated) * 100)"
    by (rule toFixed_mono [rotated])
  with False cc show ?thesis by (simp add: accuracyOf_def)
qed

lemma date_only_facts:
  "\<not> failing exampleDateCorrected" "mismatch tarikh exampleDateCorrected"
  "\<not> mismatch bil exampleDateCorrected" "\<not> mismatch kod_bidang exampleDateCorrected"
  "\<not> mismatch status exampleDateCorrected"
  by (simp_all add: failing_def mismatch_def criticalFieldsMismatch_def example_defs)

lemma correctCount_confirmed: "correctCount [exampleConfirmed] = 1"
  by (simp add: fieldsMatch_def example_defs)

lemma correctCount_date: "correctCount [exampleDateCorrected] = 0"
  by (simp add: fieldsMatch_def example_defs)

lemma correctCount_both: "correctCount [exampleConfirmed, exampleDateCorrected] = 1"
  by (simp add: fieldsMatch_def example_defs)

lemma analyzeFailures_date: "analyzeFailures [exampleDateCorrected] = []"
  by (simp add: criticalFieldsMismatch_def example_defs)

text \<open>
  C1 (the code departs from the claim). The claim counts an example as correct exactly
  when bil, kod_bidang and status equal the ground truth, whatever the date. In the
  code, for the example whose ground truth differs from the extraction in the date
  only, none of the three critical fields mismatches and \<^verbatim>\<open>analyzeFailures\<close> reports
  no failure, yet \<^verbatim>\<open>calculateAccuracy\<close> does not count the example as correct and
  returns 0: its test also compares tarikh (\<open>fieldsMatch_critical_and_date\<close>).
\<close>

theorem calculateAccuracy_date_mismatch:
  "\<not> mismatch bil exampleDateCorrected \<and> \<not> mismatch kod_bidang exampleDateCorrected \<and>
   \<not> mismatch status exampleDateCorrected \<and> mismatch tarikh exampleDateCorrected \<and>
   calculateAccuracy [(''b'', exampleDateCorrected)] = 0 \<and>
   analyzeFailures [exampleDateCorrected] = []"
proof -
  have v: "getValidatedExamples [(''b'', exampleDateCorrected)] None = [exampleDateCorrected]"
    by (simp add: getValidatedExamples_def exampleDateCorrected_def validatedAs_def)
  have "calculateAccuracy [(''b'', exampleDateCorrected)] = 0"
    by (simp add: calculateAccuracy_def v accuracyOf_def correctCount_date toFixed_zero
        del: correctCount.simps)
  with date_only_facts analyzeFailures_date show ?thesis by (intro conjI)
qed

text \<open>
  C4 (the code departs from the claim, by the defect of C1). Appending to one confirmed
  example an example whose bil, kod_bidang and status all match its ground truth lowers
  the percentage from 100 to 50, because its date differs. The rest of the claim holds
  on the code: the percentage of the empty list is 0 (\<open>accuracyOf_empty\<close>), appending an
  example that passes the test of \<^verbatim>\<open>calculateAccuracy\<close> itself never lowers it
  (\<open>accuracyOf_append_match\<close>) and appending one that fails this test never raises it
  (\<open>accuracyOf_append_no_match\<close>).
\<close>

theorem accuracy_drops_on_date_mismatch:
  "\<not> mismatch bil exampleDateCorrected \<and> \<not> mismatch kod_bidang exampleDateCorrected \<and>
   \<not> mismatch status exampleDateCorrected \<and>
   accuracyOf [exampleConfirmed] = 100 \<and>
   accuracyOf ([exampleConfirmed] @ [exampleDateCorrected]) = 50"
proof -
  have a: "accuracyOf [exampleConfirmed] = 100"
    using toFixed2_int [of 100]
    by (simp add: accuracyOf_def correctCount_confirmed del: correctCount.simps)
  have b: "accuracyOf ([exampleConfirmed] @ [exampleDateCorrected]) = 50"
    using toFixed2_int [of 50]
    by (simp add: accuracyOf_def correctCount_both del: correctCount.simps)
  from date_only_facts(3,4,5) a b show ?thesis by (intro conjI)
qed

subsection \<open>The similarity score\<close>

lemma calculateFieldConfidence_range:
  "calculateFieldConfidence rt extracted validated = Inr c \<Longrightarrow> 0 \<le> c \<and> c \<le> 1"
  by (auto simp: calculateFieldConfidence_def Let_def split: if_splits sum.splits)

lemma calculateFieldConfidence_null:
  "extracted = Some JNull \<or> validated = Some JNull \<Longrightarrow>
   calculateFieldConfidence rt extracted validated = Inr 0"
  by (auto simp: calculateFieldConfidence_def)

lemma calculateFieldConfidence_exact:
  "extracted \<noteq> Some JNull \<Longrightarrow> validated \<noteq> Some JNull \<Longrightarrow> strictEq extracted validated \<Longrightarrow>
   calculateFieldConfidence rt extracted validated = Inr 1"
  by (simp add: calculateFieldConfidence_def)

lemma calculateFieldConfidence_returns:
  assumes "convertible extracted" and "convertible validated"
  shows "\<exists>c. calculateFieldConfidence rt extracted validated = Inr c"
proof -
  from String_convertible [OF assms(1)] obtain s1 where s1: "String rt extracted = Inr s1" ..
  from String_convertible [OF assms(2)] obtain s2 where s2: "String rt validated = Inr s2" ..
  show ?thesis
    by (simp add: calculateFieldConfidence_def s1 s2 Let_def)
qed

lemma lower_aktif: "toLowerCase ''Aktif'' = ''aktif''"
  by code_simp

lemma lower_undefined: "toLowerCase ''undefined'' = ''undefined''"
  by code_simp

lemma distance_undefined_aktif: "levenshteinDistance ''undefined'' ''aktif'' = 8"
  by code_simp

text \<open>
  C6 (the code departs from the claim). A field that is absent from the extracted tender
  reaches \<^verbatim>\<open>calculateFieldConfidence\<close> as \<^verbatim>\<open>undefined\<close>, and the function tests for
  \<^verbatim>\<open>null\<close> only: an absent value against "Aktif" scores 1/9 instead of 0, and two
  absent values score 1. The rest of the claim holds on the code: \<^verbatim>\<open>null\<close> scores 0
  (\<open>calculateFieldConfidence_null\<close>), an exact match of values that are not \<^verbatim>\<open>null\<close>
  scores 1 (\<open>calculateFieldConfidence_exact\<close>), and every score lies between 0 and 1
  (\<open>calculateFieldConfidence_range\<close>).
\<close>

theorem calculateFieldConfidence_undefined:
  "calculateFieldConfidence testRuntime None (Some (JStr ''Aktif'')) = Inr (1 / 9) \<and>
   calculateFieldConfidence testRuntime None None = Inr 1"
  by (simp add: calculateFieldConfidence_def String_def lower_aktif lower_undefined
      distance_undefined_aktif)

end
